theory Spec2Isabelle
  imports Complex_Main "HOL-Library.AList"
begin

unbundle bit_operations_syntax

section \<open>Strings and the naming helpers\<close>

text \<open>
  Field names, dictionary keys and enum values are Python \<^verbatim>\<open>str\<close> values. They
  are modelled as \<^typ>\<open>string\<close>; case conversion (\<^verbatim>\<open>str.lower\<close>,
  \<^verbatim>\<open>str.upper\<close>, \<^verbatim>\<open>str.isupper\<close>) acts on the ASCII letters, which is what
  identifiers and wire names consist of.
\<close>

definition ascii_uppercase :: string where
  "ascii_uppercase = ''ABCDEFGHIJKLMNOPQRSTUVWXYZ''"

definition ascii_lowercase :: string where
  "ascii_lowercase = ''abcdefghijklmnopqrstuvwxyz''"

definition digits :: string where
  "digits = ''0123456789''"

definition is_upper :: "char \<Rightarrow> bool" where
  "is_upper c = (c \<in> set ascii_uppercase)"

definition is_lower :: "char \<Rightarrow> bool" where
  "is_lower c = (c \<in> set ascii_lowercase)"

definition is_digit :: "char \<Rightarrow> bool" where
  "is_digit c = (c \<in> set digits)"

definition lower_char :: "char \<Rightarrow> char" where
  "lower_char c = (case map_of (zip ascii_uppercase ascii_lowercase) c of Some d \<Rightarrow> d | None \<Rightarrow> c)"

definition upper_char :: "char \<Rightarrow> char" where
  "upper_char c = (case map_of (zip ascii_lowercase ascii_uppercase) c of Some d \<Rightarrow> d | None \<Rightarrow> c)"

text \<open>\<^verbatim>\<open>s.lower()\<close>\<close>

definition lower :: "string \<Rightarrow> string" where
  "lower s = map lower_char s"

text \<open>\<^verbatim>\<open>s.isupper()\<close>: at least one cased character, and no lowercase one.\<close>

definition isupper :: "string \<Rightarrow> bool" where
  "isupper s = (list_ex is_upper s \<and> \<not> list_ex is_lower s)"

text \<open>
  \<^verbatim>\<open>inflection.underscore(word)\<close> is three regular-expression substitutions and a
  \<^verbatim>\<open>lower()\<close>:
  \<^verbatim>\<open>
  word = re.sub(r"([A-Z]+)([A-Z][a-z])", r'\1_\2', word)
  word = re.sub(r"([a-z\d])([A-Z])", r'\1_\2', word)
  word = word.replace("-", "_")
  return word.lower()
  \<close>
  The first substitution puts an underscore before the last capital of a run of capitals
  that a lowercase letter follows; the second one between a lowercase letter or digit and
  a capital.
\<close>

fun underscore_acronym :: "string \<Rightarrow> string" where
  "underscore_acronym (a # b # c # s) =
     (if is_upper a \<and> is_upper b \<and> is_lower c
      then a # CHR ''_'' # underscore_acronym (b # c # s)
      else a # underscore_acronym (b # c # s))"
| "underscore_acronym s = s"

fun underscore_word :: "string \<Rightarrow> string" where
  "underscore_word (a # b # s) =
     (if (is_lower a \<or> is_digit a) \<and> is_upper b
      then a # CHR ''_'' # underscore_word (b # s)
      else a # underscore_word (b # s))"
| "underscore_word s = s"

definition underscore :: "string \<Rightarrow> string" where
  "underscore word =
     lower (map (\<lambda>c. if c = CHR ''-'' then CHR ''_'' else c)
       (underscore_word (underscore_acronym word)))"

text \<open>
  \<^verbatim>\<open>inflection.camelize(string, uppercase_first_letter=False)\<close>:
  \<^verbatim>\<open>
  def camelize(string, uppercase_first_letter=True):
      if uppercase_first_letter:
          return re.sub(r"(?:^|_)(.)", lambda m: m.group(1).upper(), string)
      else:
          return string[0].lower() + camelize(string)[1:]
  \<close>
  \<open>camelize_from\<close> is the substitution to the right of the first position (where
  only the alternative \<^verbatim>\<open>_\<close> can match; \<^verbatim>\<open>.\<close> matches no newline),
  \<open>camelize_upper\<close> the whole substitution. Python raises \<^verbatim>\<open>IndexError\<close> on the empty
  string, which is no field name; the model returns the empty string there.
\<close>

fun camelize_from :: "string \<Rightarrow> string" where
  "camelize_from (a # b # s) =
     (if a = CHR ''_'' \<and> b \<noteq> CHR 0x0A
      then upper_char b # camelize_from s
      else a # camelize_from (b # s))"
| "camelize_from s = s"

definition camelize_upper :: "string \<Rightarrow> string" where
  "camelize_upper s =
     (case s of
        [] \<Rightarrow> []
      | a # r \<Rightarrow> if a \<noteq> CHR 0x0A then upper_char a # camelize_from r else camelize_from s)"

definition camelize :: "string \<Rightarrow> string" where
  "camelize s = (case s of [] \<Rightarrow> [] | a # r \<Rightarrow> lower_char a # tl (camelize_upper s))"

text \<open>\<^verbatim>\<open>keyword.kwlist\<close> and \<^verbatim>\<open>dir(builtins)\<close> of Python 3.7.\<close>

definition kwlist :: "string list" where
  "kwlist =
  [''False'', ''None'', ''True'', ''and'', ''as'', ''assert'', ''async'', ''await'', ''break'',
   ''class'', ''continue'', ''def'', ''del'', ''elif'', ''else'', ''except'', ''finally'',
   ''for'', ''from'', ''global'', ''if'', ''import'', ''in'', ''is'', ''lambda'', ''nonlocal'',
   ''not'', ''or'', ''pass'', ''raise'', ''return'', ''try'', ''while'', ''with'', ''yield'']"

definition dir_builtins :: "string list" where
  "dir_builtins =
  [''ArithmeticError'', ''AssertionError'', ''AttributeError'', ''BaseException'',
   ''BlockingIOError'', ''BrokenPipeError'', ''BufferError'', ''BytesWarning'',
   ''ChildProcessError'', ''ConnectionAbortedError'', ''ConnectionError'',
   ''ConnectionRefusedError'', ''ConnectionResetError'', ''DeprecationWarning'', ''EOFError'',
   ''Ellipsis'', ''EnvironmentError'', ''Exception'', ''False'', ''FileExistsError'',
   ''FileNotFoundError'', ''FloatingPointError'', ''FutureWarning'', ''GeneratorExit'',
   ''IOError'', ''ImportError'', ''ImportWarning'', ''IndentationError'', ''IndexError'',
   ''InterruptedError'', ''IsADirectoryError'', ''KeyError'', ''KeyboardInterrupt'',
   ''LookupError'', ''MemoryError'', ''ModuleNotFoundError'', ''NameError'', ''None'',
   ''NotADirectoryError'', ''NotImplemented'', ''NotImplementedError'', ''OSError'',
   ''OverflowError'', ''PendingDeprecationWarning'', ''PermissionError'',
   ''ProcessLookupError'', ''RecursionError'', ''ReferenceError'', ''ResourceWarning'',
   ''RuntimeError'', ''RuntimeWarning'', ''StopAsyncIteration'', ''StopIteration'',
   ''SyntaxError'', ''SyntaxWarning'', ''SystemError'', ''SystemExit'', ''TabError'',
   ''TimeoutError'', ''True'', ''TypeError'', ''UnboundLocalError'', ''UnicodeDecodeError'',
   ''UnicodeEncodeError'', ''UnicodeError'', ''UnicodeTranslateError'', ''UnicodeWarning'',
   ''UserWarning'', ''ValueError'', ''Warning'', ''ZeroDivisionError'', ''__build_class__'',
   ''__debug__'', ''__doc__'', ''__import__'', ''__loader__'', ''__name__'', ''__package__'',
   ''__spec__'', ''abs'', ''all'', ''any'', ''ascii'', ''bin'', ''bool'', ''breakpoint'',
   ''bytearray'', ''bytes'', ''callable'', ''chr'', ''classmethod'', ''compile'', ''complex'',
   ''copyright'', ''credits'', ''delattr'', ''dict'', ''dir'', ''divmod'', ''enumerate'',
   ''eval'', ''exec'', ''exit'', ''filter'', ''float'', ''format'', ''frozenset'', ''getattr'',
   ''globals'', ''hasattr'', ''hash'', ''help'', ''hex'', ''id'', ''input'', ''int'',
   ''isinstance'', ''issubclass'', ''iter'', ''len'', ''license'', ''list'', ''locals'',
   ''map'', ''max'', ''memoryview'', ''min'', ''next'', ''object'', ''oct'', ''open'', ''ord'',
   ''pow'', ''print'', ''property'', ''quit'', ''range'', ''repr'', ''reversed'', ''round'',
   ''set'', ''setattr'', ''slice'', ''sorted'', ''staticmethod'', ''str'', ''sum'', ''super'',
   ''tuple'', ''type'', ''vars'', ''zip'']"

definition iskeyword :: "string \<Rightarrow> bool" where
  "iskeyword s = (s \<in> set kwlist)"

text \<open>
  \<^verbatim>\<open>
  def _normalise_arg(arg: str) -> str:
      if keyword.iskeyword(arg) or arg in dir(builtins):
          return arg + '_'
      else:
          return arg
  \<close>
\<close>

definition normalise_arg :: "string \<Rightarrow> string" where
  "normalise_arg arg = (if iskeyword arg \<or> arg \<in> set dir_builtins then arg @ ''_'' else arg)"

section \<open>Values, errors and dictionaries\<close>

text \<open>
  The values that travel through the binding layer. A \<^verbatim>\<open>float\<close> is named by the
  rational its literal denotes; a \<^verbatim>\<open>dt.date\<close> and a \<^verbatim>\<open>dt.datetime\<close> by
  their components. A member of an enum is identified by its enum class and its value
  (names of one value are aliases of one member). An instance of a \<^verbatim>\<open>Base\<close> class
  is \<open>PObj\<close>: the class name, the attribute values by name, and
  \<^verbatim>\<open>__calced_hash\<close>.
\<close>

datatype date = Date int int int

datatype datetime = Datetime date nat nat nat nat "int option"

datatype pyval =
    PNone
  | PBool bool
  | PInt int
  | PFloat rat
  | PStr string
  | PDate date
  | PDatetime datetime
  | PEnum string string
  | PList "pyval list"
  | PTuple "pyval list"
  | PDict "(string \<times> pyval) list"
  | PObj string "(string \<times> pyval) list" "int option"

datatype pyerror =
    KeyError string
  | ValueError string
  | TypeError string
  | AttributeError string
  | NameError string
  | OverflowError string

text \<open>A record of \<^verbatim>\<open>_logger.warning\<close>: the value and the enum it is no entry of.\<close>

datatype logrec = NotAValidEntry pyval string

text \<open>
  A \<^verbatim>\<open>dict\<close> with string keys is an association list with distinct keys, in
  insertion order: \<^verbatim>\<open>d[k] = v\<close> is \<^const>\<open>AList.update\<close>.
\<close>

type_synonym pydict = "(string \<times> pyval) list"

text \<open>\<^verbatim>\<open>d.get(k, default)\<close>\<close>

definition dict_get :: "pydict \<Rightarrow> string \<Rightarrow> pyval \<Rightarrow> pyval" where
  "dict_get d k dflt = (case map_of d k of Some v \<Rightarrow> v | None \<Rightarrow> dflt)"

text \<open>\<^verbatim>\<open>d.pop(k)\<close>: the value and the dictionary without the key, or \<^verbatim>\<open>KeyError\<close>.\<close>

definition dict_pop :: "pydict \<Rightarrow> string \<Rightarrow> pyerror + (pyval \<times> pydict)" where
  "dict_pop d k =
     (case map_of d k of Some v \<Rightarrow> Inr (v, AList.delete k d) | None \<Rightarrow> Inl (KeyError k))"

text \<open>\<^verbatim>\<open>d.pop(k, default)\<close>\<close>

definition dict_pop_default :: "pydict \<Rightarrow> string \<Rightarrow> pyval \<Rightarrow> pyval \<times> pydict" where
  "dict_pop_default d k dflt =
     (case map_of d k of Some v \<Rightarrow> (v, AList.delete k d) | None \<Rightarrow> (dflt, d))"

text \<open>\<^verbatim>\<open>dict(pairs)\<close>: a later pair of a key replaces the value of the earlier one.\<close>

definition dict_of :: "(string \<times> pyval) list \<Rightarrow> pydict" where
  "dict_of ps = foldl (\<lambda>d (k, v). AList.update k v d) [] ps"

section \<open>Enums\<close>

text \<open>
  An enum class mixes \<^verbatim>\<open>EnumBase\<close> into \<^verbatim>\<open>enum.Enum\<close>; its members have
  string values. \<open>members\<close> is \<^verbatim>\<open>__members__\<close>: names and values, in definition
  order.
\<close>

record enum_type =
  enum_name :: string
  members :: "(string \<times> string) list"

text \<open>\<^verbatim>\<open>isinstance(value, enum_type)\<close>\<close>

definition isinstance_enum :: "enum_type \<Rightarrow> pyval \<Rightarrow> bool" where
  "isinstance_enum E v = (case v of PEnum e _ \<Rightarrow> e = enum_name E | _ \<Rightarrow> False)"

text \<open>\<^verbatim>\<open>key.lower()\<close>: only a \<^verbatim>\<open>str\<close> has the method.\<close>

definition lower_method :: "pyval \<Rightarrow> pyerror + string" where
  "lower_method key =
     (case key of PStr s \<Rightarrow> Inr (lower s) | _ \<Rightarrow> Inl (AttributeError ''lower''))"

text \<open>
  \<^verbatim>\<open>
  class EnumBase:
      @classmethod
      def _missing_(cls: EnumMeta, key):
          return next((m for m in cls.__members__.values() if m.value.lower() == key.lower()), None)
  \<close>
  The generator evaluates \<^verbatim>\<open>key.lower()\<close> once per member it looks at, so an enum
  without members returns \<^verbatim>\<open>None\<close> for any key.
\<close>

fun missing_search :: "string \<Rightarrow> (string \<times> string) list \<Rightarrow> pyval \<Rightarrow> pyerror + pyval" where
  "missing_search e [] key = Inr PNone"
| "missing_search e ((n, v) # ms) key =
     (case lower_method key of
        Inl exc \<Rightarrow> Inl exc
      | Inr k \<Rightarrow> if lower v = k then Inr (PEnum e v) else missing_search e ms key)"

definition EnumBase_missing :: "enum_type \<Rightarrow> pyval \<Rightarrow> pyerror + pyval" where
  "EnumBase_missing E key = missing_search (enum_name E) (members E) key"

text \<open>
  \<^verbatim>\<open>enum_type(value)\<close>, that is \<^verbatim>\<open>Enum.__new__\<close> of Python 3.7: a member is
  returned as it is; then the member of that very value; then the \<^verbatim>\<open>_missing_\<close>
  hook, whose exception is raised as it is and whose \<^verbatim>\<open>None\<close> becomes
  \<^verbatim>\<open>ValueError\<close>. Only a string equals a member's value.
\<close>

definition by_value :: "enum_type \<Rightarrow> pyval \<Rightarrow> pyval option" where
  "by_value E value =
     (case value of
        PStr s \<Rightarrow> if s \<in> set (map snd (members E)) then Some (PEnum (enum_name E) s) else None
      | _ \<Rightarrow> None)"

definition enum_call :: "enum_type \<Rightarrow> pyval \<Rightarrow> pyerror + pyval" where
  "enum_call E value =
     (if isinstance_enum E value then Inr value
      else case by_value E value of
        Some m \<Rightarrow> Inr m
      | None \<Rightarrow>
          (case EnumBase_missing E value of
             Inl exc \<Rightarrow> Inl exc
           | Inr PNone \<Rightarrow> Inl (ValueError ''not a valid entry'')
           | Inr m \<Rightarrow> Inr m))"

text \<open>
  \<^verbatim>\<open>
  def get_enum_value(enum_type: EnumMeta, value: Union[EnumBase, str]):
      if value in (None, 'None'):
          return None

      if isinstance(value, enum_type):
          return value

      try:
          enum_value = enum_type(value)
      except ValueError:
          _logger.warning('Setting value to {}, which is not a valid entry in {}'.format(value, enum_type))
          enum_value = value

      return enum_value
  \<close>
  The result is the value and the warnings logged, or the exception that escapes.
\<close>

definition get_enum_value :: "enum_type \<Rightarrow> pyval \<Rightarrow> pyerror + (pyval \<times> logrec list)" where
  "get_enum_value E value =
     (if value = PNone \<or> value = PStr ''None'' then Inr (PNone, [])
      else if isinstance_enum E value then Inr (value, [])
      else case enum_call E value of
        Inr enum_value \<Rightarrow> Inr (enum_value, [])
      | Inl (ValueError _) \<Rightarrow> Inr (value, [NotAValidEntry value (enum_name E)])
      | Inl exc \<Rightarrow> Inl exc)"

section \<open>Declared types\<close>

text \<open>
  The domain classes are generated code outside this module; the binding layer sees them
  through reflection only. A class is described by what that reflection yields:
  \<^item> \<open>properties\<close>: \<^verbatim>\<open>cls.properties()\<close>, the names of the public properties (a
    set, in its iteration order);
  \<^item> \<open>hints\<close>: the return annotation of each property getter;
  \<^item> \<open>init_params\<close>: the parameters of \<^verbatim>\<open>__init__\<close> after \<^verbatim>\<open>self\<close>, but for
    a \<^verbatim>\<open>**kwargs\<close>, each with its default if it has one; \<open>init_kwargs\<close>:
    whether \<^verbatim>\<open>__init__\<close> takes \<^verbatim>\<open>**kwargs\<close>;
  \<^item> \<open>init_consts\<close>: the fields the constructor sets to a constant (the asset class
    and type of an instrument);
  \<^item> \<open>instrument\<close>: whether the class derives from \<^verbatim>\<open>Instrument\<close>.
  A class named in an annotation is \<^verbatim>\<open>dt.datetime\<close>, \<^verbatim>\<open>dt.date\<close>, an enum, a
  \<^verbatim>\<open>Base\<close> class or some other class (\<^verbatim>\<open>str\<close>, \<^verbatim>\<open>float\<close>, ...); an annotation
  is such a class, a \<^verbatim>\<open>Tuple[item, ...]\<close> or a \<^verbatim>\<open>Union\<close> of classes.
\<close>

datatype class_ref = OtherClass | DatetimeClass | DateClass | EnumClass string | BaseClass string

datatype item_hint = ItemClass class_ref | ItemUnion "class_ref list"

datatype hint = NoHint | Class class_ref | TupleOf item_hint | UnionOf "class_ref list"

record pyclass =
  class_name :: string
  properties :: "string list"
  hints :: "(string \<times> hint) list"
  init_params :: "(string \<times> pyval option) list"
  init_kwargs :: bool
  init_consts :: "(string \<times> pyval) list"
  instrument :: bool

text \<open>A class object, as \<^verbatim>\<open>prop_type\<close> returns it.\<close>

datatype pytype =
    OtherType
  | DatetimeType
  | DateType
  | EnumType enum_type
  | BaseType pyclass
  | TupleType

text \<open>
  What the module imports or is handed: the enums and classes that annotations name, the
  two library functions on time stamps, and the contents of
  \<^verbatim>\<open>gs_quant.target.instrument\<close> and \<^verbatim>\<open>gs_quant.instrument\<close> that
  \<^verbatim>\<open>Instrument\<close> uses. \<open>fromtimestamp_isoformat ms\<close> is
  \<^verbatim>\<open>dt.datetime.fromtimestamp(ms / 1000).isoformat()\<close>. \<open>instrument_classes\<close> are
  the classes of the target module that derive from \<^verbatim>\<open>Instrument\<close>, in the order of
  \<^verbatim>\<open>inspect.getmembers\<close>.
\<close>

record env =
  classes :: "(string \<times> pyclass) list"
  enum_types :: "(string \<times> enum_type) list"
  isoparse :: "string \<Rightarrow> pyerror + datetime"
  fromtimestamp_isoformat :: "int \<Rightarrow> pyerror + string"
  AssetClass :: enum_type
  AssetType :: enum_type
  Forward :: pyclass
  instrument_classes :: "pyclass list"
  Security_from_dict :: "pydict \<Rightarrow> logrec list \<Rightarrow> pyerror + (pyval \<times> logrec list)"

text \<open>A name in an annotation that no class has is a \<^verbatim>\<open>NameError\<close> of \<^verbatim>\<open>get_type_hints\<close>.\<close>

definition resolve :: "env \<Rightarrow> class_ref \<Rightarrow> pyerror + pytype" where
  "resolve \<Gamma> r =
     (case r of
        OtherClass \<Rightarrow> Inr OtherType
      | DatetimeClass \<Rightarrow> Inr DatetimeType
      | DateClass \<Rightarrow> Inr DateType
      | EnumClass e \<Rightarrow>
          (case map_of (enum_types \<Gamma>) e of Some E \<Rightarrow> Inr (EnumType E) | None \<Rightarrow> Inl (NameError e))
      | BaseClass c \<Rightarrow>
          (case map_of (classes \<Gamma>) c of Some K \<Rightarrow> Inr (BaseType K) | None \<Rightarrow> Inl (NameError c)))"

text \<open>\<^verbatim>\<open>issubclass(a, (Base, EnumBase))\<close>\<close>

definition is_base_or_enum :: "class_ref \<Rightarrow> bool" where
  "is_base_or_enum r = (case r of EnumClass _ \<Rightarrow> True | BaseClass _ \<Rightarrow> True | _ \<Rightarrow> False)"

text \<open>
  \<^verbatim>\<open>
  @classmethod
  def prop_type(cls, prop: str) -> type:
      return_hints = get_type_hints(getattr(cls, prop).fget).get('return')
      if hasattr(return_hints, '__origin__'):
          prop_type = return_hints.__origin__
      else:
          prop_type = return_hints

      if prop_type == Union:
          prop_type = next((a for a in return_hints.__args__ if issubclass(a, (Base, EnumBase))), None)

      return prop_type
  \<close>
  \<^verbatim>\<open>getattr(cls, prop)\<close> raises for a name that is no attribute of the class.
\<close>

definition prop_type :: "env \<Rightarrow> pyclass \<Rightarrow> string \<Rightarrow> pyerror + pytype option" where
  "prop_type \<Gamma> cls prop =
     (if prop \<notin> set (properties cls) then Inl (AttributeError prop)
      else case map_of (hints cls) prop of
        None \<Rightarrow> Inr None
      | Some NoHint \<Rightarrow> Inr None
      | Some (Class r) \<Rightarrow> map_sum id Some (resolve \<Gamma> r)
      | Some (TupleOf _) \<Rightarrow> Inr (Some TupleType)
      | Some (UnionOf args) \<Rightarrow>
          (case find is_base_or_enum args of
             None \<Rightarrow> Inr None
           | Some a \<Rightarrow> map_sum id Some (resolve \<Gamma> a)))"

text \<open>
  The element type of a collection, as \<^verbatim>\<open>__from_dict\<close> determines it:
  \<^verbatim>\<open>
  item_type = self.prop_item_type(prop)
  item_args = [i for i in getattr(item_type, '__args__', ()) if isinstance(i, type)]
  if item_args:
      item_type = next((a for a in item_args if issubclass(a, (Base, EnumBase))), item_args[-1])
  \<close>
  where \<^verbatim>\<open>prop_item_type\<close> is \<^verbatim>\<open>return_hints.__args__[0]\<close>.
\<close>

definition item_type :: "env \<Rightarrow> pyclass \<Rightarrow> string \<Rightarrow> pyerror + pytype" where
  "item_type \<Gamma> cls prop =
     (case map_of (hints cls) prop of
        Some (TupleOf (ItemClass r)) \<Rightarrow> resolve \<Gamma> r
      | Some (TupleOf (ItemUnion item_args)) \<Rightarrow>
          (if item_args = [] then Inl (TypeError ''issubclass() arg 1 must be a class'')
           else case find is_base_or_enum item_args of
             Some a \<Rightarrow> resolve \<Gamma> a
           | None \<Rightarrow> resolve \<Gamma> (last item_args))
      | _ \<Rightarrow> Inl (AttributeError ''__args__''))"

section \<open>Objects\<close>

text \<open>
  \<^verbatim>\<open>_from_dict\<close> names the property of a constructor parameter:
  \<^verbatim>\<open>prop_name = arg[:-1] if arg.endswith('_') and not keyword.iskeyword(arg) else arg\<close>
\<close>

definition prop_name_of :: "string \<Rightarrow> string" where
  "prop_name_of arg =
     (if arg \<noteq> [] \<and> last arg = CHR ''_'' \<and> \<not> iskeyword arg then butlast arg else arg)"

text \<open>
  Modelled from the spec: the constructor of a generated class (the type declaration
  collaborator of the spec's section 6), which "distinguishes required from optional
  parameters" and yields "a minimally-initialized instance". It refuses a keyword that is
  no parameter and a missing required parameter, as any Python function does; it stores
  each argument (or the parameter's default) in the field the parameter is named after,
  the declared constants in theirs, \<^verbatim>\<open>None\<close> in every other field, and leaves
  \<^verbatim>\<open>__calced_hash\<close> unset (\<^verbatim>\<open>Base.__init__\<close>).
\<close>

definition init_value :: "pyclass \<Rightarrow> pydict \<Rightarrow> string \<Rightarrow> pyval" where
  "init_value cls kwargs prop =
     (case find (\<lambda>(a, d). prop_name_of a = prop) (init_params cls) of
        Some (a, d) \<Rightarrow>
          (case map_of kwargs a of
             Some v \<Rightarrow> v
           | None \<Rightarrow> (case d of Some dv \<Rightarrow> dv | None \<Rightarrow> PNone))
      | None \<Rightarrow> dict_get (init_consts cls) prop PNone)"

definition init :: "pyclass \<Rightarrow> pydict \<Rightarrow> pyerror + pyval" where
  "init cls kwargs =
     (if \<not> init_kwargs cls \<and> \<not> list_all (\<lambda>(k, v). k \<in> set (map fst (init_params cls))) kwargs
      then Inl (TypeError ''__init__() got an unexpected keyword argument'')
      else if \<not> list_all (\<lambda>(a, d). d \<noteq> None \<or> a \<in> set (map fst kwargs)) (init_params cls)
      then Inl (TypeError ''__init__() missing required positional arguments'')
      else Inr (PObj (class_name cls)
             (map (\<lambda>prop. (prop, init_value cls kwargs prop)) (properties cls)) None))"

text \<open>
  \<^verbatim>\<open>
  class BaseMeta(type):

      def __call__(cls, *args, **kwargs):
          normalised_kwargs = {}
          for arg, value in kwargs.items():
              arg = _normalise_arg(arg)

              if not arg.isupper():
                  snake_case_arg = inflection.underscore(arg)
                  if snake_case_arg != arg:
                      if snake_case_arg in kwargs:
                          raise ValueError('{} and {} both specified'.format(arg, snake_case_arg))

                      normalised_kwargs[snake_case_arg] = value
                  else:
                      normalised_kwargs[arg] = value
              else:
                  normalised_kwargs[arg] = value

          obj = cls.__new__(cls, *args, **normalised_kwargs)
          obj.__init__(*args, **normalised_kwargs)
          return obj
  \<close>
  \<open>normalise_kwargs kwargs items normalised_kwargs\<close> is the loop with \<open>items\<close> still to
  visit. The binding layer constructs with keyword arguments only.
\<close>

fun normalise_kwargs :: "pydict \<Rightarrow> (string \<times> pyval) list \<Rightarrow> pydict \<Rightarrow> pyerror + pydict" where
  "normalise_kwargs kwargs [] normalised_kwargs = Inr normalised_kwargs"
| "normalise_kwargs kwargs ((arg0, value) # items) normalised_kwargs =
     (let arg = normalise_arg arg0 in
      if \<not> isupper arg then
        (let snake_case_arg = underscore arg in
         if snake_case_arg \<noteq> arg then
           (if snake_case_arg \<in> set (map fst kwargs)
            then Inl (ValueError (arg @ '' and '' @ snake_case_arg @ '' both specified''))
            else normalise_kwargs kwargs items (AList.update snake_case_arg value normalised_kwargs))
         else normalise_kwargs kwargs items (AList.update arg value normalised_kwargs))
      else normalise_kwargs kwargs items (AList.update arg value normalised_kwargs))"

definition BaseMeta_call :: "pyclass \<Rightarrow> pydict \<Rightarrow> pyerror + pyval" where
  "BaseMeta_call cls kwargs =
     (case normalise_kwargs kwargs kwargs [] of
        Inl exc \<Rightarrow> Inl exc
      | Inr normalised_kwargs \<Rightarrow> init cls normalised_kwargs)"

text \<open>
  \<^verbatim>\<open>super().__getattribute__(prop)\<close>: the getter of a property returns its field;
  a name the object has no value for is an \<^verbatim>\<open>AttributeError\<close>.
\<close>

definition object_getattribute :: "pyval \<Rightarrow> string \<Rightarrow> pyerror + pyval" where
  "object_getattribute self name =
     (case self of
        PObj c attrs h \<Rightarrow>
          (case map_of attrs name of Some v \<Rightarrow> Inr v | None \<Rightarrow> Inl (AttributeError name))
      | _ \<Rightarrow> Inl (AttributeError name))"

text \<open>
  \<^verbatim>\<open>
  def _property_changed(self, prop: str):
      self.__calced_hash = None
  \<close>
\<close>

definition property_changed :: "pyval \<Rightarrow> string \<Rightarrow> pyval" where
  "property_changed self prop = (case self of PObj c attrs h \<Rightarrow> PObj c attrs None | _ \<Rightarrow> self)"

text \<open>
  Modelled from the spec: the setter of a generated property. "Any field mutation
  invalidates (clears) the cached hash of that instance": the setter stores the value and
  calls \<^verbatim>\<open>_property_changed\<close>. \<^verbatim>\<open>object.__setattr__\<close> runs the setter for the
  name of a property and stores any other name as a plain attribute.
\<close>

definition object_setattr :: "pyclass \<Rightarrow> pyval \<Rightarrow> string \<Rightarrow> pyval \<Rightarrow> pyval" where
  "object_setattr cls self name value =
     (case self of
        PObj c attrs h \<Rightarrow>
          (if name \<in> set (properties cls)
           then property_changed (PObj c (AList.update name value attrs) h) name
           else PObj c (AList.update name value attrs) h)
      | _ \<Rightarrow> self)"

text \<open>
  \<^verbatim>\<open>
  def __setattr__(self, key, value):
      properties = super().__getattribute__('properties')()
      snake_case_key = inflection.underscore(key)
      key_is_property = key in properties
      snake_case_key_is_property = snake_case_key in properties

      if snake_case_key_is_property and not key_is_property:
          return super().__setattr__(snake_case_key, value)
      else:
          return super().__setattr__(key, value)
  \<close>
\<close>

definition Base_setattr :: "pyclass \<Rightarrow> pyval \<Rightarrow> string \<Rightarrow> pyval \<Rightarrow> pyval" where
  "Base_setattr cls self key value =
     (let snake_case_key = underscore key;
          key_is_property = key \<in> set (properties cls);
          snake_case_key_is_property = snake_case_key \<in> set (properties cls)
      in if snake_case_key_is_property \<and> \<not> key_is_property
         then object_setattr cls self snake_case_key value
         else object_setattr cls self key value)"

text \<open>
  \<^verbatim>\<open>
  def __getattr__(self, item):
      snake_case_item = inflection.underscore(item)
      if snake_case_item in super().__getattribute__('properties')():
          return super().__getattribute__(snake_case_item)
      else:
          return super().__getattribute__(item)
  \<close>
  Python calls \<^verbatim>\<open>__getattr__\<close> when the ordinary lookup has failed.
\<close>

definition Base_getattr :: "pyclass \<Rightarrow> pyval \<Rightarrow> string \<Rightarrow> pyerror + pyval" where
  "Base_getattr cls self item =
     (case object_getattribute self item of
        Inr v \<Rightarrow> Inr v
      | Inl _ \<Rightarrow>
          (let snake_case_item = underscore item in
           if snake_case_item \<in> set (properties cls)
           then object_getattribute self snake_case_item
           else object_getattribute self item))"

subsection \<open>Hash and equality\<close>

text \<open>
  \<^verbatim>\<open>
  def __hash__(self) -> int:
      if self.__calced_hash is None:
          properties = iter(self.properties())
          prop = next(properties, None)
          calced_hash = hash(super().__getattribute__(prop)) if prop else 1
          for prop in properties:
              calced_hash ^= hash(super().__getattribute__(prop))

          self.__calced_hash = calced_hash

      return self.__calced_hash
  \<close>
  The builtin \<^verbatim>\<open>hash\<close> of a field value is the parameter \<open>hash\<close> (an unhashable
  value raises). \<open>Base_hash\<close> returns the result and the object, whose
  \<^verbatim>\<open>__calced_hash\<close> it may have set. (A field value that is an object caches its
  own hash as well when it is hashed; \<open>hash\<close>, a function, does not record that.)
\<close>

fun xor_hashes :: "(pyval \<Rightarrow> pyerror + int) \<Rightarrow> pyval \<Rightarrow> int \<Rightarrow> string list \<Rightarrow> pyerror + int" where
  "xor_hashes hash self calced_hash [] = Inr calced_hash"
| "xor_hashes hash self calced_hash (prop # props) =
     (case object_getattribute self prop of
        Inl exc \<Rightarrow> Inl exc
      | Inr v \<Rightarrow>
          (case hash v of
             Inl exc \<Rightarrow> Inl exc
           | Inr h \<Rightarrow> xor_hashes hash self (calced_hash XOR h) props))"

definition compute_hash :: "(pyval \<Rightarrow> pyerror + int) \<Rightarrow> pyclass \<Rightarrow> pyval \<Rightarrow> pyerror + int" where
  "compute_hash hash cls self =
     (case properties cls of
        [] \<Rightarrow> Inr 1
      | prop # props \<Rightarrow>
          (if prop = [] then xor_hashes hash self 1 props
           else case object_getattribute self prop of
             Inl exc \<Rightarrow> Inl exc
           | Inr v \<Rightarrow>
               (case hash v of
                  Inl exc \<Rightarrow> Inl exc
                | Inr h \<Rightarrow> xor_hashes hash self h props)))"

definition Base_hash ::
  "(pyval \<Rightarrow> pyerror + int) \<Rightarrow> pyclass \<Rightarrow> pyval \<Rightarrow> (pyerror + int) \<times> pyval" where
  "Base_hash hash cls self =
     (case self of
        PObj c attrs calced \<Rightarrow>
          (case calced of
             Some h \<Rightarrow> (Inr h, self)
           | None \<Rightarrow>
               (case compute_hash hash cls self of
                  Inl exc \<Rightarrow> (Inl exc, self)
                | Inr h \<Rightarrow> (Inr h, PObj c attrs (Some h))))
      | _ \<Rightarrow> (Inl (TypeError ''not an instance of Base''), self))"

text \<open>
  \<^verbatim>\<open>
  def __eq__(self, other) -> bool:
      return\
          type(self) == type(other) and\
          (self.__calced_hash is None or other.__calced_hash is None or self.__calced_hash == other.__calced_hash) and\
          all(super(Base, self).__getattribute__(p) == super(Base, other).__getattribute__(p) for p in self.properties())
  \<close>
  \<^verbatim>\<open>==\<close> on the field values is the parameter \<open>eq\<close>.
\<close>

fun all_equal :: "(pyval \<Rightarrow> pyval \<Rightarrow> bool) \<Rightarrow> pyval \<Rightarrow> pyval \<Rightarrow> string list \<Rightarrow> pyerror + bool" where
  "all_equal eq self other [] = Inr True"
| "all_equal eq self other (p # props) =
     (case object_getattribute self p of
        Inl exc \<Rightarrow> Inl exc
      | Inr u \<Rightarrow>
          (case object_getattribute other p of
             Inl exc \<Rightarrow> Inl exc
           | Inr v \<Rightarrow> if eq u v then all_equal eq self other props else Inr False))"

definition Base_eq :: "(pyval \<Rightarrow> pyval \<Rightarrow> bool) \<Rightarrow> pyclass \<Rightarrow> pyval \<Rightarrow> pyval \<Rightarrow> pyerror + bool" where
  "Base_eq eq cls self other =
     (case self of
        PObj c attrs h \<Rightarrow>
          (case other of
             PObj c' attrs' h' \<Rightarrow>
               (if c = c' \<and> (h = None \<or> h' = None \<or> h = h')
                then all_equal eq self other (properties cls)
                else Inr False)
           | _ \<Rightarrow> Inr False)
      | _ \<Rightarrow> Inr False)"

subsection \<open>Clone\<close>

text \<open>
  \<^verbatim>\<open>
  def clone(self, **kwargs):
      clone = copy.copy(self)
      properties = self.properties()
      for key, value in kwargs.items():
          if key in properties:
              setattr(clone, key, value)
          else:
              raise ValueError('Only properties may be passed as kwargs')

      return clone
  \<close>
  \<^verbatim>\<open>copy.copy\<close> makes a second object, so the objects live in a store: a list of
  objects, an object's address being its index. \<open>clone\<close> returns the store and the address
  of the copy.
\<close>

type_synonym store = "pyval list"

definition copy_copy :: "store \<Rightarrow> nat \<Rightarrow> store \<times> nat" where
  "copy_copy st self = (st @ [st ! self], length st)"

fun clone_loop :: "pyclass \<Rightarrow> store \<Rightarrow> nat \<Rightarrow> (string \<times> pyval) list \<Rightarrow> pyerror + store" where
  "clone_loop cls st clone [] = Inr st"
| "clone_loop cls st clone ((key, value) # items) =
     (if key \<in> set (properties cls)
      then clone_loop cls (st[clone := Base_setattr cls (st ! clone) key value]) clone items
      else Inl (ValueError ''Only properties may be passed as kwargs''))"

definition clone :: "pyclass \<Rightarrow> store \<Rightarrow> nat \<Rightarrow> pydict \<Rightarrow> pyerror + (store \<times> nat)" where
  "clone cls st self kwargs =
     (if self < length st then
        (case copy_copy st self of
           (st', c) \<Rightarrow>
             (case clone_loop cls st' c kwargs of
                Inl exc \<Rightarrow> Inl exc
              | Inr st'' \<Rightarrow> Inr (st'', c)))
      else Inl (AttributeError ''clone''))"

subsection \<open>To a dictionary\<close>

text \<open>
  \<^verbatim>\<open>
  def as_dict(self, as_camel_case: bool=False) -> dict:
      raw_properties = self.properties()
      properties = (inflection.camelize(p, uppercase_first_letter=False) for p in raw_properties) if as_camel_case else raw_properties
      values = (super(Base, self).__getattribute__(p) for p in raw_properties)
      return dict((p, v) for p, v in zip(properties, values) if v is not None)
  \<close>
\<close>

fun getattributes :: "pyval \<Rightarrow> string list \<Rightarrow> pyerror + pyval list" where
  "getattributes self [] = Inr []"
| "getattributes self (p # props) =
     (case object_getattribute self p of
        Inl exc \<Rightarrow> Inl exc
      | Inr v \<Rightarrow> map_sum id ((#) v) (getattributes self props))"

definition as_dict :: "pyclass \<Rightarrow> pyval \<Rightarrow> bool \<Rightarrow> pyerror + pydict" where
  "as_dict cls self as_camel_case =
     (let raw_properties = properties cls;
          props = (if as_camel_case then map camelize raw_properties else raw_properties)
      in case getattributes self raw_properties of
           Inl exc \<Rightarrow> Inl exc
         | Inr values \<Rightarrow> Inr (dict_of (filter (\<lambda>(p, v). v \<noteq> PNone) (zip props values))))"

section \<open>From a dictionary\<close>

text \<open>
  \<^verbatim>\<open>isinstance\<close> tests and truth values. A \<^verbatim>\<open>bool\<close> is an \<^verbatim>\<open>int\<close> in Python.
\<close>

definition isinstance_int :: "pyval \<Rightarrow> bool" where
  "isinstance_int v = (case v of PInt _ \<Rightarrow> True | PBool _ \<Rightarrow> True | _ \<Rightarrow> False)"

definition int_of :: "pyval \<Rightarrow> int" where
  "int_of v = (case v of PInt i \<Rightarrow> i | PBool b \<Rightarrow> (if b then 1 else 0) | _ \<Rightarrow> 0)"

definition isinstance_Base :: "pyval \<Rightarrow> bool" where
  "isinstance_Base v = (case v of PObj _ _ _ \<Rightarrow> True | _ \<Rightarrow> False)"

definition isinstance_Base_or_EnumBase :: "pyval \<Rightarrow> bool" where
  "isinstance_Base_or_EnumBase v = (case v of PObj _ _ _ \<Rightarrow> True | PEnum _ _ \<Rightarrow> True | _ \<Rightarrow> False)"

definition falsy :: "pyval \<Rightarrow> bool" where
  "falsy v =
     (case v of
        PNone \<Rightarrow> True
      | PBool b \<Rightarrow> \<not> b
      | PInt i \<Rightarrow> i = 0
      | PFloat r \<Rightarrow> r = 0
      | PStr s \<Rightarrow> s = []
      | PList xs \<Rightarrow> xs = []
      | PTuple xs \<Rightarrow> xs = []
      | PDict d \<Rightarrow> d = []
      | _ \<Rightarrow> False)"

text \<open>
  The date-time branch of \<^verbatim>\<open>__from_dict\<close>:
  \<^verbatim>\<open>
  if isinstance(prop_value, int):
      setattr(self, prop, dt.datetime.fromtimestamp(prop_value / 1000).isoformat())
  else:
      import re
      matcher = re.search('\.([0-9]*)Z$', prop_value)
      if matcher:
          sub_seconds = matcher.group(1)
          if len(sub_seconds) > 6:
              prop_value = re.sub(matcher.re, '.{}Z'.format(sub_seconds[:6]), prop_value)
      setattr(self, prop, dateutil.parser.isoparse(prop_value))
  \<close>
  \<open>sub_seconds_here s\<close> matches the pattern at the start of \<open>s\<close>: a dot, digits, a
  \<^verbatim>\<open>Z\<close>, and the end of the string or a last newline (\<^verbatim>\<open>$\<close>); it gives the
  digits and what follows the \<^verbatim>\<open>Z\<close>. \<open>sub_seconds_search\<close> is \<^verbatim>\<open>re.search\<close>:
  the leftmost match, with the text before it. The pattern matches at most once, so
  \<^verbatim>\<open>re.sub\<close> replaces that match. \<^verbatim>\<open>re.search\<close> raises \<^verbatim>\<open>TypeError\<close> for a
  value that is no string.
\<close>

definition sub_seconds_here :: "string \<Rightarrow> (string \<times> string) option" where
  "sub_seconds_here s =
     (case s of
        [] \<Rightarrow> None
      | c # r \<Rightarrow>
          if c = CHR ''.'' then
            (let sub_seconds = takeWhile is_digit r; rest = dropWhile is_digit r in
             if rest = ''Z'' \<or> rest = [CHR ''Z'', CHR 0x0A] then Some (sub_seconds, tl rest) else None)
          else None)"

fun sub_seconds_search :: "string \<Rightarrow> (string \<times> string \<times> string) option" where
  "sub_seconds_search [] = None"
| "sub_seconds_search (c # r) =
     (case sub_seconds_here (c # r) of
        Some (sub_seconds, rest) \<Rightarrow> Some ([], sub_seconds, rest)
      | None \<Rightarrow>
          (case sub_seconds_search r of
             None \<Rightarrow> None
           | Some (before, sub_seconds, rest) \<Rightarrow> Some (c # before, sub_seconds, rest)))"

definition truncate_sub_seconds :: "string \<Rightarrow> string" where
  "truncate_sub_seconds prop_value =
     (case sub_seconds_search prop_value of
        None \<Rightarrow> prop_value
      | Some (before, sub_seconds, rest) \<Rightarrow>
          if length sub_seconds > 6
          then before @ ''.'' @ take 6 sub_seconds @ ''Z'' @ rest
          else prop_value)"

definition date_of :: "datetime \<Rightarrow> date" where
  "date_of t = (case t of Datetime d _ _ _ _ _ \<Rightarrow> d)"

definition coerce_datetime :: "env \<Rightarrow> pyval \<Rightarrow> pyerror + pyval" where
  "coerce_datetime \<Gamma> prop_value =
     (if isinstance_int prop_value
      then map_sum id PStr (fromtimestamp_isoformat \<Gamma> (int_of prop_value))
      else case prop_value of
        PStr s \<Rightarrow> map_sum id PDatetime (isoparse \<Gamma> (truncate_sub_seconds s))
      | _ \<Rightarrow> Inl (TypeError ''expected string or bytes-like object''))"

text \<open>
  The date branch: \<^verbatim>\<open>setattr(self, prop, dateutil.parser.isoparse(prop_value).date())\<close>
\<close>

definition coerce_date :: "env \<Rightarrow> pyval \<Rightarrow> pyerror + pyval" where
  "coerce_date \<Gamma> prop_value =
     (case prop_value of
        PStr s \<Rightarrow> map_sum id (\<lambda>t. PDate (date_of t)) (isoparse \<Gamma> s)
      | _ \<Rightarrow> Inl (TypeError ''isoparse: not a string''))"

text \<open>
  \<^verbatim>\<open>for v in prop_value\<close> and \<^verbatim>\<open>tuple(prop_value)\<close>: the elements of a list or
  tuple, the characters of a string, the keys of a dictionary.
\<close>

definition iterate :: "pyval \<Rightarrow> pyerror + pyval list" where
  "iterate v =
     (case v of
        PList xs \<Rightarrow> Inr xs
      | PTuple xs \<Rightarrow> Inr xs
      | PStr s \<Rightarrow> Inr (map (\<lambda>c. PStr [c]) s)
      | PDict d \<Rightarrow> Inr (map (\<lambda>(k, x). PStr k) d)
      | _ \<Rightarrow> Inl (TypeError ''object is not iterable''))"

text \<open>\<^verbatim>\<open>tuple(get_enum_value(item_type, v) for v in prop_value)\<close>\<close>

fun enum_items :: "enum_type \<Rightarrow> pyval list \<Rightarrow> logrec list \<Rightarrow> pyerror + (pyval list \<times> logrec list)" where
  "enum_items E [] lg = Inr ([], lg)"
| "enum_items E (v # vs) lg =
     (case get_enum_value E v of
        Inl exc \<Rightarrow> Inl exc
      | Inr (x, l) \<Rightarrow>
          (case enum_items E vs (lg @ l) of
             Inl exc \<Rightarrow> Inl exc
           | Inr (xs, lg') \<Rightarrow> Inr (x # xs, lg')))"

text \<open>
  \<^verbatim>\<open>
  args = [k for k, v in signature(cls.__init__).parameters.items() if k != 'kwargs' and v.default == Parameter.empty][1:]
  \<close>
\<close>

definition required_args :: "pyclass \<Rightarrow> string list" where
  "required_args cls = map fst (filter (\<lambda>(k, d). d = None) (init_params cls))"

subsection \<open>The instrument registry\<close>

text \<open>\<^verbatim>\<open>instrument.AssetClass.Cash\<close>: the member of a name.\<close>

definition member_named :: "enum_type \<Rightarrow> string \<Rightarrow> pyerror + pyval" where
  "member_named E n =
     (case map_of (members E) n of
        Some v \<Rightarrow> Inr (PEnum (enum_name E) v)
      | None \<Rightarrow> Inl (AttributeError n))"

text \<open>
  \<^verbatim>\<open>
  @classmethod
  def default_instance(cls) -> 'Base':
      args = [k for k, v in signature(cls.__init__).parameters.items() if v.default == Parameter.empty][1:]
      required = {a: None for a in args}
      return cls(**required)
  \<close>
  A \<^verbatim>\<open>**kwargs\<close> parameter has no default either, and is not left out here.
\<close>

definition default_instance :: "pyclass \<Rightarrow> pyerror + pyval" where
  "default_instance cls =
     (let args = required_args cls @ (if init_kwargs cls then [''kwargs''] else [])
      in BaseMeta_call cls (map (\<lambda>a. (a, PNone)) args))"

text \<open>
  \<^verbatim>\<open>
  @classmethod
  def asset_class_and_type_to_instrument(cls) -> Mapping[Tuple['AssetClass', 'AssetType'], 'Instrument']:
      if not cls.__asset_class_and_type_to_instrument:
          import gs_quant.target.instrument as instrument
          import inspect
          instrument_classes = [c for _, c in inspect.getmembers(instrument, inspect.isclass) if
                                issubclass(c, Instrument) and c is not Instrument]

          cls.__asset_class_and_type_to_instrument[(instrument.AssetClass.Cash, instrument.AssetType.Currency)] = instrument.Forward

          for clazz in instrument_classes:
              instrument = clazz.default_instance()
              cls.__asset_class_and_type_to_instrument[(instrument.asset_class, instrument.type)] = clazz

      return cls.__asset_class_and_type_to_instrument
  \<close>
  The mapping is a function of the declarations, so the cache is not modelled. The
  attributes of the default instance are read with no pricing session set (with one,
  \<^verbatim>\<open>Priceable.__getattribute__\<close> would resolve the instrument remotely).
\<close>

type_synonym registry = "((pyval \<times> pyval) \<times> pyclass) list"

fun register_classes :: "pyclass list \<Rightarrow> registry \<Rightarrow> pyerror + registry" where
  "register_classes [] reg = Inr reg"
| "register_classes (clazz # clazzes) reg =
     (case default_instance clazz of
        Inl exc \<Rightarrow> Inl exc
      | Inr inst \<Rightarrow>
          (case Base_getattr clazz inst ''asset_class'' of
             Inl exc \<Rightarrow> Inl exc
           | Inr asset_class \<Rightarrow>
               (case Base_getattr clazz inst ''type'' of
                  Inl exc \<Rightarrow> Inl exc
                | Inr asset_type \<Rightarrow>
                    register_classes clazzes (AList.update (asset_class, asset_type) clazz reg))))"

definition asset_class_and_type_to_instrument :: "env \<Rightarrow> pyerror + registry" where
  "asset_class_and_type_to_instrument \<Gamma> =
     (case member_named (AssetClass \<Gamma>) ''Cash'' of
        Inl exc \<Rightarrow> Inl exc
      | Inr cash \<Rightarrow>
          (case member_named (AssetType \<Gamma>) ''Currency'' of
             Inl exc \<Rightarrow> Inl exc
           | Inr currency \<Rightarrow>
               register_classes (instrument_classes \<Gamma>) [((cash, currency), Forward \<Gamma>)]))"

text \<open>
  \<^verbatim>\<open>
  @classmethod
  def from_dict(cls, values: dict) -> Optional[Union['Instrument', 'Security']]:
      from gs_quant.target.instrument import AssetClass, AssetType

      if not values:
          return None

      instrument_type = cls.asset_class_and_type_to_instrument().get((
          get_enum_value(AssetClass, values.pop('asset_class')),
          get_enum_value(AssetType, values.pop('type'))))

      if instrument_type:
          return instrument_type._from_dict(values)
      else:
          from gs_quant.instrument import Security
          return Security.from_dict(values)
  \<close>
  \<open>Instrument_dispatch\<close> is the method up to the choice between its three returns; the
  dictionary it hands on has lost the two keys.
\<close>

datatype dispatch = ReturnNone | Construct pyclass pydict "logrec list" | Fallback pydict "logrec list"

definition Instrument_dispatch :: "env \<Rightarrow> pydict \<Rightarrow> logrec list \<Rightarrow> pyerror + dispatch" where
  "Instrument_dispatch \<Gamma> values lg =
     (if values = [] then Inr ReturnNone
      else case asset_class_and_type_to_instrument \<Gamma> of
        Inl exc \<Rightarrow> Inl exc
      | Inr reg \<Rightarrow>
          (case dict_pop values ''asset_class'' of
             Inl exc \<Rightarrow> Inl exc
           | Inr (v1, values1) \<Rightarrow>
               (case get_enum_value (AssetClass \<Gamma>) v1 of
                  Inl exc \<Rightarrow> Inl exc
                | Inr (asset_class, l1) \<Rightarrow>
                    (case dict_pop values1 ''type'' of
                       Inl exc \<Rightarrow> Inl exc
                     | Inr (v2, values2) \<Rightarrow>
                         (case get_enum_value (AssetType \<Gamma>) v2 of
                            Inl exc \<Rightarrow> Inl exc
                          | Inr (asset_type, l2) \<Rightarrow>
                              (case map_of reg (asset_class, asset_type) of
                                 Some instrument_type \<Rightarrow> Inr (Construct instrument_type values2 (lg @ l1 @ l2))
                               | None \<Rightarrow> Inr (Fallback values2 (lg @ l1 @ l2))))))))"


subsection \<open>Values that are no dictionary\<close>

text \<open>
  \<^verbatim>\<open>cls.from_dict(values)\<close> for a value that is no dictionary. It has no
  \<^verbatim>\<open>pop(key, default)\<close> and no \<^verbatim>\<open>get\<close>, so \<^verbatim>\<open>_from_dict\<close> raises at the
  first required parameter, or else at the first property; \<^verbatim>\<open>Instrument.from_dict\<close>
  returns \<^verbatim>\<open>None\<close> for a value that is false, and otherwise evaluates
  \<^verbatim>\<open>cls.asset_class_and_type_to_instrument()\<close> and then raises at its first
  \<^verbatim>\<open>pop\<close>.
\<close>

definition pop_error :: "pyval \<Rightarrow> pyerror" where
  "pop_error v = (case v of PList _ \<Rightarrow> TypeError ''pop'' | _ \<Rightarrow> AttributeError ''pop'')"

definition from_dict_nondict ::
  "env \<Rightarrow> pyclass \<Rightarrow> pyval \<Rightarrow> logrec list \<Rightarrow> pyerror + (pyval \<times> logrec list)" where
  "from_dict_nondict \<Gamma> cls values lg =
     (if instrument cls then
        (if falsy values then Inr (PNone, lg)
         else case asset_class_and_type_to_instrument \<Gamma> of
           Inl exc \<Rightarrow> Inl exc
         | Inr reg \<Rightarrow> Inl (pop_error values))
      else case required_args cls of
        arg # args \<Rightarrow>
          (case prop_type \<Gamma> cls (prop_name_of arg) of
             Inl exc \<Rightarrow> Inl exc
           | Inr _ \<Rightarrow> Inl (pop_error values))
      | [] \<Rightarrow>
          (case BaseMeta_call cls [] of
             Inl exc \<Rightarrow> Inl exc
           | Inr instance \<Rightarrow>
               if properties cls = [] then Inr (instance, lg) else Inl (AttributeError ''get'')))"

fun nondict_items ::
  "env \<Rightarrow> pyclass \<Rightarrow> pyval list \<Rightarrow> logrec list \<Rightarrow> pyerror + (pyval list \<times> logrec list)" where
  "nondict_items \<Gamma> cls [] lg = Inr ([], lg)"
| "nondict_items \<Gamma> cls (v # vs) lg =
     (case from_dict_nondict \<Gamma> cls v lg of
        Inl exc \<Rightarrow> Inl exc
      | Inr (x, lg') \<Rightarrow>
          (case nondict_items \<Gamma> cls vs lg' of
             Inl exc \<Rightarrow> Inl exc
           | Inr (xs, lg'') \<Rightarrow> Inr (x # xs, lg'')))"

subsection \<open>The size of a dictionary\<close>

text \<open>
  The measure for the termination of the construction below: every nested call there is
  on a value stored in the dictionary at hand, and each loop shortens its list.
\<close>

abbreviation size_dict :: "pydict \<Rightarrow> nat" where
  "size_dict d \<equiv> size_list (size_prod (\<lambda>k. 0) size) d"

lemma size_map_of: "map_of d k = Some v \<Longrightarrow> size v + 2 \<le> size_dict d"
  by (induction d) (auto split: if_splits)

lemma size_dict_delete: "size_dict (AList.delete k d) \<le> size_dict d"
  by (induction d) auto

lemma size_dict_get:
  "v = dict_get d k (dict_get d k' PNone) \<Longrightarrow> v \<noteq> PNone \<Longrightarrow> size v < size_dict d"
  by (auto simp: dict_get_def dest: size_map_of split: option.splits)

lemma size_dict_pop_default:
  "(v, d') = dict_pop_default d k PNone \<Longrightarrow> size_dict d' \<le> size_dict d"
  by (auto simp: dict_pop_default_def size_dict_delete split: option.splits)

lemma size_dict_pop_default_value:
  "(v, d') = dict_pop_default d k PNone \<Longrightarrow> v \<noteq> PNone \<Longrightarrow> size v < size_dict d"
  by (auto simp: dict_pop_default_def dest!: size_map_of split: option.splits)

lemma size_dict_pop: "dict_pop d k = Inr (v, d') \<Longrightarrow> size_dict d' \<le> size_dict d"
  by (auto simp: dict_pop_def size_dict_delete split: option.splits)

lemma size_Instrument_dispatch:
  "Instrument_dispatch \<Gamma> d lg = Inr (Construct c d' lg') \<Longrightarrow> size_dict d' \<le> size_dict d"
  by (auto simp: Instrument_dispatch_def split: if_splits sum.splits option.splits
      dest!: size_dict_pop)

subsection \<open>Construction\<close>

text \<open>
  Four functions, defined together since a nested dictionary is constructed recursively:
  \<^item> \<open>from_dict \<Gamma> cls values lg\<close> is \<^verbatim>\<open>cls.from_dict(values)\<close>:
    \<^verbatim>\<open>Instrument.from_dict\<close> for a class that derives from \<^verbatim>\<open>Instrument\<close>, and
    \<^verbatim>\<open>Base.from_dict\<close>, which is \<^verbatim>\<open>cls._from_dict(values)\<close>, for any other;
  \<^item> \<open>Base_from_dict \<Gamma> cls args values required lg\<close> is \<^verbatim>\<open>cls._from_dict(values)\<close>
    from the head of its loop on, with \<open>args\<close> still to visit and \<open>required\<close>
    collected so far;
  \<^item> \<open>Base__from_dict \<Gamma> cls props values self lg\<close> is \<^verbatim>\<open>self.__from_dict(values)\<close>
    from the head of its loop on, with \<open>props\<close> still to visit;
  \<^item> \<open>from_dict_items \<Gamma> cls vs lg\<close> is
    \<^verbatim>\<open>tuple(v if isinstance(v, (Base, EnumBase)) else item_type.from_dict(v) for v in vs)\<close>.
  \<open>lg\<close> is the log so far; a result is the value with the log, or the exception.
  \<^verbatim>\<open>
  @classmethod
  def _from_dict(cls, values: dict) -> 'Base':
      args = [k for k, v in signature(cls.__init__).parameters.items() if k != 'kwargs' and v.default == Parameter.empty][1:]
      required = {}

      for arg in args:
          prop_name = arg[:-1] if arg.endswith('_') and not keyword.iskeyword(arg) else arg
          prop_type = cls.prop_type(prop_name)
          value = values.pop(arg, None)

          if prop_type:
              if issubclass(prop_type, Base):
                  if isinstance(value, dict):
                      value = prop_type.from_dict(value)
              elif issubclass(prop_type, EnumBase):
                  value = get_enum_value(prop_type, value)

          required[arg] = value

      instance = cls(**required)
      instance.__from_dict(values)
      return instance
  \<close>
  \<^verbatim>\<open>
  def __from_dict(self, values: dict):
      for prop in self.properties():
          prop_value = values.get(prop, values.get(inflection.camelize(prop, uppercase_first_letter=False)))

          if prop_value is not None:
              prop_type = self.prop_type(prop)

              if prop_type is None:
                  # This shouldn't happen
                  setattr(self, prop, prop_value)
              elif issubclass(prop_type, dt.datetime):
                  ...
              elif issubclass(prop_type, dt.date):
                  setattr(self, prop, dateutil.parser.isoparse(prop_value).date())
              elif issubclass(prop_type, EnumBase):
                  setattr(self, prop, get_enum_value(prop_type, prop_value))
              elif issubclass(prop_type, Base):
                  if isinstance(prop_value, Base):
                      setattr(self, prop, prop_value)
                  else:
                      setattr(self, prop, prop_type.from_dict(prop_value))
              elif issubclass(prop_type, (list, tuple)):
                  item_type = self.prop_item_type(prop)
                  item_args = [i for i in getattr(item_type, '__args__', ()) if isinstance(i, type)]
                  if item_args:
                      item_type = next((a for a in item_args if issubclass(a, (Base, EnumBase))), item_args[-1])

                  if issubclass(item_type, Base):
                      item_values = tuple(v if isinstance(v, (Base, EnumBase)) else item_type.from_dict(v) for v in prop_value)
                  elif issubclass(item_type, EnumBase):
                      item_values = tuple(get_enum_value(item_type, v) for v in prop_value)
                  else:
                      item_values = tuple(prop_value)
                  setattr(self, prop, item_values)
              else:
                  setattr(self, prop, prop_value)
  \<close>
\<close>

function
    from_dict :: "env \<Rightarrow> pyclass \<Rightarrow> pyval \<Rightarrow> logrec list \<Rightarrow> pyerror + (pyval \<times> logrec list)"
and Base_from_dict ::
      "env \<Rightarrow> pyclass \<Rightarrow> string list \<Rightarrow> pydict \<Rightarrow> pydict \<Rightarrow> logrec list \<Rightarrow> pyerror + (pyval \<times> logrec list)"
and Base__from_dict ::
      "env \<Rightarrow> pyclass \<Rightarrow> string list \<Rightarrow> pydict \<Rightarrow> pyval \<Rightarrow> logrec list \<Rightarrow> pyerror + (pyval \<times> logrec list)"
and from_dict_items ::
      "env \<Rightarrow> pyclass \<Rightarrow> pyval list \<Rightarrow> logrec list \<Rightarrow> pyerror + (pyval list \<times> logrec list)"
where
  "from_dict \<Gamma> cls values lg =
     (case values of
        PDict d \<Rightarrow>
          (if instrument cls then
             (case Instrument_dispatch \<Gamma> d lg of
                Inl exc \<Rightarrow> Inl exc
              | Inr ReturnNone \<Rightarrow> Inr (PNone, lg)
              | Inr (Construct instrument_type d' lg') \<Rightarrow>
                  Base_from_dict \<Gamma> instrument_type (required_args instrument_type) d' [] lg'
              | Inr (Fallback d' lg') \<Rightarrow> Security_from_dict \<Gamma> d' lg')
           else Base_from_dict \<Gamma> cls (required_args cls) d [] lg)
      | _ \<Rightarrow> from_dict_nondict \<Gamma> cls values lg)"
| "Base_from_dict \<Gamma> cls [] values required lg =
     (case BaseMeta_call cls required of
        Inl exc \<Rightarrow> Inl exc
      | Inr instance \<Rightarrow> Base__from_dict \<Gamma> cls (properties cls) values instance lg)"
| "Base_from_dict \<Gamma> cls (arg # args) values required lg =
     (case prop_type \<Gamma> cls (prop_name_of arg) of
        Inl exc \<Rightarrow> Inl exc
      | Inr pt \<Rightarrow>
          (case dict_pop_default values arg PNone of
             (v, values') \<Rightarrow>
               (case pt of
                  Some (BaseType c) \<Rightarrow>
                    (case v of
                       PDict d \<Rightarrow>
                         (case from_dict \<Gamma> c (PDict d) lg of
                            Inl exc \<Rightarrow> Inl exc
                          | Inr (v', lg') \<Rightarrow>
                              Base_from_dict \<Gamma> cls args values' (AList.update arg v' required) lg')
                     | _ \<Rightarrow> Base_from_dict \<Gamma> cls args values' (AList.update arg v required) lg)
                | Some (EnumType E) \<Rightarrow>
                    (case get_enum_value E v of
                       Inl exc \<Rightarrow> Inl exc
                     | Inr (v', l) \<Rightarrow>
                         Base_from_dict \<Gamma> cls args values' (AList.update arg v' required) (lg @ l))
                | _ \<Rightarrow> Base_from_dict \<Gamma> cls args values' (AList.update arg v required) lg)))"
| "Base__from_dict \<Gamma> cls [] values self lg = Inr (self, lg)"
| "Base__from_dict \<Gamma> cls (prop # props) values self lg =
     (let prop_value = dict_get values prop (dict_get values (camelize prop) PNone) in
      if prop_value \<noteq> PNone then
        (case prop_type \<Gamma> cls prop of
           Inl exc \<Rightarrow> Inl exc
         | Inr None \<Rightarrow>
             Base__from_dict \<Gamma> cls props values (Base_setattr cls self prop prop_value) lg
         | Inr (Some DatetimeType) \<Rightarrow>
             (case coerce_datetime \<Gamma> prop_value of
                Inl exc \<Rightarrow> Inl exc
              | Inr v \<Rightarrow> Base__from_dict \<Gamma> cls props values (Base_setattr cls self prop v) lg)
         | Inr (Some DateType) \<Rightarrow>
             (case coerce_date \<Gamma> prop_value of
                Inl exc \<Rightarrow> Inl exc
              | Inr v \<Rightarrow> Base__from_dict \<Gamma> cls props values (Base_setattr cls self prop v) lg)
         | Inr (Some (EnumType E)) \<Rightarrow>
             (case get_enum_value E prop_value of
                Inl exc \<Rightarrow> Inl exc
              | Inr (v, l) \<Rightarrow>
                  Base__from_dict \<Gamma> cls props values (Base_setattr cls self prop v) (lg @ l))
         | Inr (Some (BaseType c)) \<Rightarrow>
             (if isinstance_Base prop_value
              then Base__from_dict \<Gamma> cls props values (Base_setattr cls self prop prop_value) lg
              else case from_dict \<Gamma> c prop_value lg of
                Inl exc \<Rightarrow> Inl exc
              | Inr (v, lg') \<Rightarrow>
                  Base__from_dict \<Gamma> cls props values (Base_setattr cls self prop v) lg')
         | Inr (Some TupleType) \<Rightarrow>
             (case item_type \<Gamma> cls prop of
                Inl exc \<Rightarrow> Inl exc
              | Inr (BaseType c) \<Rightarrow>
                  (case (case prop_value of
                           PList vs \<Rightarrow> from_dict_items \<Gamma> c vs lg
                         | PTuple vs \<Rightarrow> from_dict_items \<Gamma> c vs lg
                         | _ \<Rightarrow>
                             (case iterate prop_value of
                                Inl exc \<Rightarrow> Inl exc
                              | Inr vs \<Rightarrow> nondict_items \<Gamma> c vs lg)) of
                     Inl exc \<Rightarrow> Inl exc
                   | Inr (item_values, lg') \<Rightarrow>
                       Base__from_dict \<Gamma> cls props values
                         (Base_setattr cls self prop (PTuple item_values)) lg')
              | Inr (EnumType E) \<Rightarrow>
                  (case iterate prop_value of
                     Inl exc \<Rightarrow> Inl exc
                   | Inr vs \<Rightarrow>
                       (case enum_items E vs lg of
                          Inl exc \<Rightarrow> Inl exc
                        | Inr (item_values, lg') \<Rightarrow>
                            Base__from_dict \<Gamma> cls props values
                              (Base_setattr cls self prop (PTuple item_values)) lg'))
              | Inr _ \<Rightarrow>
                  (case iterate prop_value of
                     Inl exc \<Rightarrow> Inl exc
                   | Inr vs \<Rightarrow>
                       Base__from_dict \<Gamma> cls props values
                         (Base_setattr cls self prop (PTuple vs)) lg))
         | Inr (Some OtherType) \<Rightarrow>
             Base__from_dict \<Gamma> cls props values (Base_setattr cls self prop prop_value) lg)
      else Base__from_dict \<Gamma> cls props values self lg)"
| "from_dict_items \<Gamma> cls [] lg = Inr ([], lg)"
| "from_dict_items \<Gamma> cls (v # vs) lg =
     (if isinstance_Base_or_EnumBase v then
        (case from_dict_items \<Gamma> cls vs lg of
           Inl exc \<Rightarrow> Inl exc
         | Inr (xs, lg') \<Rightarrow> Inr (v # xs, lg'))
      else case from_dict \<Gamma> cls v lg of
        Inl exc \<Rightarrow> Inl exc
      | Inr (x, lg') \<Rightarrow>
          (case from_dict_items \<Gamma> cls vs lg' of
             Inl exc \<Rightarrow> Inl exc
           | Inr (xs, lg'') \<Rightarrow> Inr (x # xs, lg'')))"
  by pat_completeness auto

termination
  apply (relation "measures
     [\<lambda>x. case x of
         Inl (Inl (\<Gamma>, cls, values, lg)) \<Rightarrow> size values
       | Inl (Inr (\<Gamma>, cls, args, values, required, lg)) \<Rightarrow> size_dict values
       | Inr (Inl (\<Gamma>, cls, props, values, self, lg)) \<Rightarrow> size_dict values
       | Inr (Inr (\<Gamma>, cls, vs, lg)) \<Rightarrow> size_list size vs,
      \<lambda>x. case x of
         Inl (Inl (\<Gamma>, cls, values, lg)) \<Rightarrow> 0
       | Inl (Inr (\<Gamma>, cls, args, values, required, lg)) \<Rightarrow> length args + length (properties cls) + 1
       | Inr (Inl (\<Gamma>, cls, props, values, self, lg)) \<Rightarrow> length props
       | Inr (Inr (\<Gamma>, cls, vs, lg)) \<Rightarrow> 0]")
  apply (auto simp: size_dict_get [OF refl]
           dest: size_dict_pop_default size_dict_pop_default_value size_dict_get size_Instrument_dispatch)
  done


text \<open>
  The loop of \<^verbatim>\<open>_from_dict\<close> on its own: \<open>required_loop\<close> returns what the loop
  leaves behind, that is \<^verbatim>\<open>required\<close>, the dictionary \<^verbatim>\<open>values\<close> after the pops,
  and the log.
\<close>

fun required_loop ::
  "env \<Rightarrow> pyclass \<Rightarrow> string list \<Rightarrow> pydict \<Rightarrow> pydict \<Rightarrow> logrec list \<Rightarrow>
   pyerror + (pydict \<times> pydict \<times> logrec list)" where
  "required_loop \<Gamma> cls [] values required lg = Inr (required, values, lg)"
| "required_loop \<Gamma> cls (arg # args) values required lg =
     (case prop_type \<Gamma> cls (prop_name_of arg) of
        Inl exc \<Rightarrow> Inl exc
      | Inr pt \<Rightarrow>
          (case dict_pop_default values arg PNone of
             (v, values') \<Rightarrow>
               (case pt of
                  Some (BaseType c) \<Rightarrow>
                    (case v of
                       PDict d \<Rightarrow>
                         (case from_dict \<Gamma> c (PDict d) lg of
                            Inl exc \<Rightarrow> Inl exc
                          | Inr (v', lg') \<Rightarrow>
                              required_loop \<Gamma> cls args values' (AList.update arg v' required) lg')
                     | _ \<Rightarrow> required_loop \<Gamma> cls args values' (AList.update arg v required) lg)
                | Some (EnumType E) \<Rightarrow>
                    (case get_enum_value E v of
                       Inl exc \<Rightarrow> Inl exc
                     | Inr (v', l) \<Rightarrow>
                         required_loop \<Gamma> cls args values' (AList.update arg v' required) (lg @ l))
                | _ \<Rightarrow> required_loop \<Gamma> cls args values' (AList.update arg v required) lg)))"

text \<open>
  A required parameter whose popped value \<^verbatim>\<open>_from_dict\<close> hands on as it is: its
  property is declared neither as a \<^verbatim>\<open>Base\<close> class nor as an enum.
\<close>

definition uncoerced :: "env \<Rightarrow> pyclass \<Rightarrow> string \<Rightarrow> bool" where
  "uncoerced \<Gamma> cls arg =
     (case prop_type \<Gamma> cls (prop_name_of arg) of
        Inr (Some (BaseType c)) \<Rightarrow> False
      | Inr (Some (EnumType E)) \<Rightarrow> False
      | _ \<Rightarrow> True)"


section \<open>The cached hash\<close>

text \<open>
  The invariant of \<^verbatim>\<open>__calced_hash\<close>: when set, it is the hash of the current field
  values.
\<close>

definition cache_valid :: "(pyval \<Rightarrow> pyerror + int) \<Rightarrow> pyclass \<Rightarrow> pyval \<Rightarrow> bool" where
  "cache_valid hash cls self =
     (case self of
        PObj c attrs (Some h) \<Rightarrow> compute_hash hash cls self = Inr h
      | _ \<Rightarrow> True)"

text \<open>
  The statement \<^verbatim>\<open>self.field.key = value\<close>. Python reads \<^verbatim>\<open>self.field\<close> and
  calls \<^verbatim>\<open>__setattr__\<close> of the object it refers to; nothing of \<^verbatim>\<open>self\<close> runs, so
  \<^verbatim>\<open>_property_changed\<close> clears the \<^verbatim>\<open>__calced_hash\<close> of the inner object only.
  Objects are nested by value here, and the object in the field is the one \<^verbatim>\<open>self\<close>
  refers to: \<open>self\<close> afterwards holds the inner object as its \<^verbatim>\<open>__setattr__\<close> left
  it, and has the \<^verbatim>\<open>__calced_hash\<close> it had. \<open>inner\<close> is the class of the inner
  object.
\<close>

definition nested_setattr ::
  "pyclass \<Rightarrow> pyval \<Rightarrow> string \<Rightarrow> string \<Rightarrow> pyval \<Rightarrow> pyerror + pyval" where
  "nested_setattr inner self field key value =
     (case self of
        PObj c attrs h \<Rightarrow>
          (case object_getattribute self field of
             Inl exc \<Rightarrow> Inl exc
           | Inr obj \<Rightarrow> Inr (PObj c (AList.update field (Base_setattr inner obj key value) attrs) h))
      | _ \<Rightarrow> Inl (AttributeError field))"

section \<open>The round trip\<close>

text \<open>
  What \<^verbatim>\<open>__from_dict\<close> reads for a property:
  \<^verbatim>\<open>values.get(prop, values.get(inflection.camelize(prop, uppercase_first_letter=False)))\<close>
\<close>

definition lookup :: "pydict \<Rightarrow> string \<Rightarrow> pyval" where
  "lookup d q = dict_get d q (dict_get d (camelize q) PNone)"

text \<open>
  The key \<^verbatim>\<open>as_dict\<close> writes for a property:
  \<^verbatim>\<open>inflection.camelize(p, False) if as_camel_case else p\<close>
\<close>

definition wire_key :: "bool \<Rightarrow> string \<Rightarrow> string" where
  "wire_key as_camel_case p = (if as_camel_case then camelize p else p)"

text \<open>
  A field value that \<^verbatim>\<open>__from_dict\<close> stores as it finds it: any value of a property
  with no class to coerce to, a member of the declared enum, an object for a property
  declared as a \<^verbatim>\<open>Base\<close> class, a tuple whose items are objects or enum members where
  the item type asks for them. A property declared as a date or a date-time has no such
  value: its branch parses a string.
\<close>

definition field_value_ok :: "env \<Rightarrow> pyclass \<Rightarrow> string \<Rightarrow> pyval \<Rightarrow> bool" where
  "field_value_ok \<Gamma> cls prop v =
     (case prop_type \<Gamma> cls prop of
        Inl exc \<Rightarrow> False
      | Inr None \<Rightarrow> True
      | Inr (Some OtherType) \<Rightarrow> True
      | Inr (Some DatetimeType) \<Rightarrow> False
      | Inr (Some DateType) \<Rightarrow> False
      | Inr (Some (EnumType E)) \<Rightarrow> isinstance_enum E v
      | Inr (Some (BaseType c)) \<Rightarrow> isinstance_Base v
      | Inr (Some TupleType) \<Rightarrow>
          (case v of
             PTuple xs \<Rightarrow>
               (case item_type \<Gamma> cls prop of
                  Inl exc \<Rightarrow> False
                | Inr (BaseType c) \<Rightarrow> list_all isinstance_Base_or_EnumBase xs
                | Inr (EnumType E) \<Rightarrow> list_all (isinstance_enum E) xs
                | Inr _ \<Rightarrow> True)
           | _ \<Rightarrow> False))"

text \<open>
  The same for the value popped for a required parameter in \<^verbatim>\<open>_from_dict\<close>, which
  coerces a dictionary to a \<^verbatim>\<open>Base\<close> class and anything to an enum.
\<close>

definition required_ok :: "env \<Rightarrow> pyclass \<Rightarrow> string \<Rightarrow> pyval \<Rightarrow> bool" where
  "required_ok \<Gamma> cls a v =
     (case prop_type \<Gamma> cls (prop_name_of a) of
        Inl exc \<Rightarrow> False
      | Inr (Some (BaseType c)) \<Rightarrow> (case v of PDict _ \<Rightarrow> False | _ \<Rightarrow> True)
      | Inr (Some (EnumType E)) \<Rightarrow> v = PNone \<or> isinstance_enum E v
      | Inr _ \<Rightarrow> True)"

text \<open>
  A keyword that \<^verbatim>\<open>BaseMeta.__call__\<close> passes on under its own name.
\<close>

definition canonical_name :: "string \<Rightarrow> bool" where
  "canonical_name a = (normalise_arg a = a \<and> (isupper a \<or> underscore a = a))"

text \<open>
  A class as the generated ones are: the properties are distinct, no two constructor
  parameters stand for the same property, and every required parameter has a canonical
  name and stands for a property.
\<close>

definition wf_class :: "pyclass \<Rightarrow> bool" where
  "wf_class cls =
     (distinct (properties cls) \<and>
      distinct (map (\<lambda>(a, d). prop_name_of a) (init_params cls)) \<and>
      (\<forall>a \<in> set (required_args cls). canonical_name a \<and> prop_name_of a \<in> set (properties cls)))"

text \<open>
  The keys of the dictionary do not collide: different properties are written under
  different keys, the wire name of one property is not the name of another, and a key
  that is the name of a required parameter is the key of that parameter's property.
\<close>

definition keys_ok :: "pyclass \<Rightarrow> bool \<Rightarrow> bool" where
  "keys_ok cls as_camel_case =
     (distinct (map (wire_key as_camel_case) (properties cls)) \<and>
      (\<forall>p \<in> set (properties cls). \<forall>q \<in> set (properties cls). camelize p = q \<longrightarrow> p = q) \<and>
      (\<forall>a \<in> set (required_args cls). \<forall>p \<in> set (properties cls).
         wire_key as_camel_case p = a \<longrightarrow> prop_name_of a = p))"


section \<open>Example declarations\<close>

text \<open>
  A few declarations in the style of the generated classes, for the scenarios of the spec:
  two enums, an interest rate swap and a forward (instruments), a security and an event
  with a time stamp. The library functions are given on the arguments the scenarios use.
\<close>

definition ex_AssetClass :: enum_type where
  "ex_AssetClass = \<lparr>enum_name = ''AssetClass'',
     members = [(''Cash'', ''Cash''), (''Rates'', ''Rates''), (''FX'', ''FX'')]\<rparr>"

definition ex_AssetType :: enum_type where
  "ex_AssetType = \<lparr>enum_name = ''AssetType'',
     members = [(''Currency'', ''Currency''), (''Forward'', ''Forward''), (''Swap'', ''Swap'')]\<rparr>"

definition ex_Swap :: pyclass where
  "ex_Swap = \<lparr>class_name = ''IRSwap'',
     properties = [''asset_class'', ''fixed_rate'', ''notional_currency'', ''type''],
     hints = [(''asset_class'', Class (EnumClass ''AssetClass'')),
              (''fixed_rate'', UnionOf [OtherClass, OtherClass]),
              (''notional_currency'', Class OtherClass),
              (''type'', Class (EnumClass ''AssetType''))],
     init_params = [(''notional_currency'', None), (''fixed_rate'', Some PNone)],
     init_kwargs = False,
     init_consts = [(''asset_class'', PEnum ''AssetClass'' ''Rates''),
                    (''type'', PEnum ''AssetType'' ''Swap'')],
     instrument = True\<rparr>"

definition ex_Forward :: pyclass where
  "ex_Forward = \<lparr>class_name = ''Forward'',
     properties = [''asset_class'', ''type''],
     hints = [(''asset_class'', Class (EnumClass ''AssetClass'')),
              (''type'', Class (EnumClass ''AssetType''))],
     init_params = [],
     init_kwargs = False,
     init_consts = [(''asset_class'', PEnum ''AssetClass'' ''Cash''),
                    (''type'', PEnum ''AssetType'' ''Forward'')],
     instrument = True\<rparr>"

definition ex_Security :: pyclass where
  "ex_Security = \<lparr>class_name = ''Security'',
     properties = [''bbid'', ''prime_id'', ''ticker''],
     hints = [(''bbid'', Class OtherClass), (''prime_id'', Class OtherClass),
              (''ticker'', Class OtherClass)],
     init_params = [(''ticker'', Some PNone), (''bbid'', Some PNone), (''prime_id'', Some PNone)],
     init_kwargs = False,
     init_consts = [],
     instrument = False\<rparr>"

definition ex_Event :: pyclass where
  "ex_Event = \<lparr>class_name = ''Event'',
     properties = [''time''],
     hints = [(''time'', Class DatetimeClass)],
     init_params = [(''time'', Some PNone)],
     init_kwargs = False,
     init_consts = [],
     instrument = False\<rparr>"

definition ex_isoparse :: "string \<Rightarrow> pyerror + datetime" where
  "ex_isoparse s =
     (if s = ''2020-01-01T00:00:00.123456Z''
      then Inr (Datetime (Date 2020 1 1) 0 0 0 123456 (Some 0))
      else Inl (ValueError ''isoparse''))"

definition ex_fromtimestamp_isoformat :: "int \<Rightarrow> pyerror + string" where
  "ex_fromtimestamp_isoformat ms =
     (if ms = 1577836800000 then Inr ''2020-01-01T00:00:00''
      else Inl (OverflowError ''fromtimestamp''))"

definition ex_base :: env where
  "ex_base = \<lparr>classes = [(''IRSwap'', ex_Swap), (''Forward'', ex_Forward),
                (''Security'', ex_Security), (''Event'', ex_Event)],
     enum_types = [(''AssetClass'', ex_AssetClass), (''AssetType'', ex_AssetType)],
     isoparse = ex_isoparse,
     fromtimestamp_isoformat = ex_fromtimestamp_isoformat,
     AssetClass = ex_AssetClass,
     AssetType = ex_AssetType,
     Forward = ex_Forward,
     instrument_classes = [ex_Forward, ex_Swap],
     Security_from_dict = (\<lambda>d lg. Inl (NameError ''Security''))\<rparr>"

text \<open>In the example, \<^verbatim>\<open>Security.from_dict\<close> is the construction of \<^verbatim>\<open>Base\<close>.\<close>

definition ex_env :: env where
  "ex_env = ex_base\<lparr>Security_from_dict :=
     (\<lambda>d lg. Base_from_dict ex_base ex_Security (required_args ex_Security) d [] lg)\<rparr>"

text \<open>
  A swap as the constructor and the setters leave it, the same swap after
  \<^verbatim>\<open>__hash__\<close>, and a hash function for the values in it.
\<close>

definition ex_swap_obj :: pyval where
  "ex_swap_obj = PObj ''IRSwap''
     [(''asset_class'', PEnum ''AssetClass'' ''Rates''), (''fixed_rate'', PFloat (1 / 100)),
      (''notional_currency'', PStr ''USD''), (''type'', PEnum ''AssetType'' ''Swap'')] None"

definition ex_swap_hashed :: pyval where
  "ex_swap_hashed = PObj ''IRSwap''
     [(''asset_class'', PEnum ''AssetClass'' ''Rates''), (''fixed_rate'', PFloat (1 / 100)),
      (''notional_currency'', PStr ''USD''), (''type'', PEnum ''AssetType'' ''Swap'')] (Some 3)"

definition ex_hash :: "pyval \<Rightarrow> pyerror + int" where
  "ex_hash v =
     (case v of
        PNone \<Rightarrow> Inr 0
      | PInt i \<Rightarrow> Inr i
      | PStr s \<Rightarrow> Inr (int (length s))
      | PEnum e s \<Rightarrow> Inr (int (length s) + 16)
      | PFloat r \<Rightarrow> Inr 1
      | _ \<Rightarrow> Inl (TypeError ''unhashable type''))"

text \<open>
  A class that is no instrument, with a required parameter and an enum field, a fully
  populated instance of it, and a time stamp for the event.
\<close>

definition ex_Position :: pyclass where
  "ex_Position = \<lparr>class_name = ''Position'',
     properties = [''asset_class'', ''asset_id'', ''quantity''],
     hints = [(''asset_class'', Class (EnumClass ''AssetClass'')),
              (''asset_id'', Class OtherClass),
              (''quantity'', UnionOf [OtherClass, OtherClass])],
     init_params = [(''asset_id'', None), (''quantity'', Some PNone),
                    (''asset_class'', Some PNone)],
     init_kwargs = False,
     init_consts = [],
     instrument = False\<rparr>"

definition ex_position_attrs :: pydict where
  "ex_position_attrs =
     [(''asset_class'', PEnum ''AssetClass'' ''Rates''), (''asset_id'', PStr ''MA4B66MW5E27''),
      (''quantity'', PInt 100)]"

definition ex_event_time :: pyval where
  "ex_event_time = PDatetime (Datetime (Date 2020 1 1) 0 0 0 0 None)"


text \<open>
  A trade that holds a leg, both plain classes. The builtin \<^verbatim>\<open>hash\<close> and \<^verbatim>\<open>==\<close>
  of a field value of the trade: for the leg they are \<^verbatim>\<open>Base.__hash__\<close> and
  \<^verbatim>\<open>Base.__eq__\<close> of the leg, whose own field is an \<^verbatim>\<open>int\<close>.
\<close>

definition ex_Leg :: pyclass where
  "ex_Leg = \<lparr>class_name = ''Leg'',
     properties = [''quantity''],
     hints = [(''quantity'', Class OtherClass)],
     init_params = [(''quantity'', Some PNone)],
     init_kwargs = False,
     init_consts = [],
     instrument = False\<rparr>"

definition ex_Trade :: pyclass where
  "ex_Trade = \<lparr>class_name = ''Trade'',
     properties = [''leg''],
     hints = [(''leg'', Class (BaseClass ''Leg''))],
     init_params = [(''leg'', Some PNone)],
     init_kwargs = False,
     init_consts = [],
     instrument = False\<rparr>"

definition ex_field_hash :: "pyval \<Rightarrow> pyerror + int" where
  "ex_field_hash v =
     (case v of PObj c attrs h \<Rightarrow> fst (Base_hash ex_hash ex_Leg v) | _ \<Rightarrow> ex_hash v)"

definition ex_field_eq :: "pyval \<Rightarrow> pyval \<Rightarrow> bool" where
  "ex_field_eq u v =
     (case u of PObj c attrs h \<Rightarrow> Base_eq (=) ex_Leg u v = Inr True | _ \<Rightarrow> u = v)"

definition ex_leg :: "int \<Rightarrow> pyval" where
  "ex_leg n = PObj ''Leg'' [(''quantity'', PInt n)] None"

definition ex_trade :: "int \<Rightarrow> int option \<Rightarrow> pyval" where
  "ex_trade n calced_hash = PObj ''Trade'' [(''leg'', ex_leg n)] calced_hash"


section \<open>Properties\<close>

subsection \<open>Evaluating the examples\<close>

lemmas naming_defs =
  normalise_arg_def iskeyword_def kwlist_def dir_builtins_def isupper_def is_upper_def
  is_lower_def is_digit_def ascii_uppercase_def ascii_lowercase_def digits_def underscore_def
  lower_def lower_char_def upper_char_def camelize_def camelize_upper_def prop_name_of_def

lemma underscore_fixedRate: "underscore ''fixedRate'' = ''fixed_rate''"
  by (simp add: naming_defs)

lemma normalise_arg_fixedRate: "normalise_arg ''fixedRate'' = ''fixedRate''"
  by (simp add: naming_defs)

lemma isupper_fixedRate: "\<not> isupper ''fixedRate''"
  by (simp add: naming_defs)

lemma camelize_ex_Swap:
  "camelize ''asset_class'' = ''assetClass''" "camelize ''fixed_rate'' = ''fixedRate''"
  "camelize ''notional_currency'' = ''notionalCurrency''" "camelize ''type'' = ''type''"
  by (simp_all add: naming_defs)

lemma camelize_ex_Security:
  "camelize ''bbid'' = ''bbid''" "camelize ''prime_id'' = ''primeId''"
  "camelize ''ticker'' = ''ticker''"
  by (simp_all add: naming_defs)

lemma ex_env_simps:
  "AssetClass ex_env = ex_AssetClass" "AssetType ex_env = ex_AssetType"
  "classes ex_env = classes ex_base" "enum_types ex_env = enum_types ex_base"
  "isoparse ex_env = ex_isoparse" "fromtimestamp_isoformat ex_env = ex_fromtimestamp_isoformat"
  "Security_from_dict ex_env =
     (\<lambda>d lg. Base_from_dict ex_base ex_Security (required_args ex_Security) d [] lg)"
  by (simp_all add: ex_env_def ex_base_def)

lemma get_enum_value_Rates:
  "get_enum_value ex_AssetClass (PStr ''Rates'') = Inr (PEnum ''AssetClass'' ''Rates'', [])"
  by (simp add: get_enum_value_def isinstance_enum_def enum_call_def by_value_def ex_AssetClass_def)

lemma get_enum_value_Swap:
  "get_enum_value ex_AssetType (PStr ''Swap'') = Inr (PEnum ''AssetType'' ''Swap'', [])"
  by (simp add: get_enum_value_def isinstance_enum_def enum_call_def by_value_def ex_AssetType_def)

lemma get_enum_value_Swaption:
  "get_enum_value ex_AssetType (PStr ''Swaption'') =
     Inr (PStr ''Swaption'', [NotAValidEntry (PStr ''Swaption'') ''AssetType''])"
  by (simp add: get_enum_value_def isinstance_enum_def enum_call_def by_value_def
      EnumBase_missing_def lower_method_def ex_AssetType_def naming_defs)

lemma ex_registry:
  "asset_class_and_type_to_instrument ex_env =
     Inr [((PEnum ''AssetClass'' ''Cash'', PEnum ''AssetType'' ''Currency''), ex_Forward),
          ((PEnum ''AssetClass'' ''Cash'', PEnum ''AssetType'' ''Forward''), ex_Forward),
          ((PEnum ''AssetClass'' ''Rates'', PEnum ''AssetType'' ''Swap''), ex_Swap)]"
  by (simp add: asset_class_and_type_to_instrument_def ex_env_def ex_base_def member_named_def
      ex_AssetClass_def ex_AssetType_def default_instance_def required_args_def
      BaseMeta_call_def init_def init_value_def Base_getattr_def object_getattribute_def
      dict_get_def naming_defs ex_Forward_def ex_Swap_def)

lemma required_args_ex_Swap: "required_args ex_Swap = [''notional_currency'']"
  by (simp add: required_args_def ex_Swap_def)

lemma required_args_ex_Security: "required_args ex_Security = []"
  by (simp add: required_args_def ex_Security_def)

lemma prop_type_ex_Swap:
  "prop_type ex_env ex_Swap ''notional_currency'' = Inr (Some OtherType)"
  "prop_type ex_env ex_Swap ''fixed_rate'' = Inr None"
  by (simp_all add: prop_type_def ex_Swap_def resolve_def is_base_or_enum_def)

lemma prop_type_ex_Security:
  "p \<in> set (properties ex_Security) \<Longrightarrow> prop_type \<Gamma> ex_Security p = Inr (Some OtherType)"
  by (auto simp: prop_type_def ex_Security_def resolve_def)

lemma normalise_kwargs_notional_currency:
  "normalise_kwargs kw [(''notional_currency'', v)] [] = Inr [(''notional_currency'', v)]"
  by (simp add: naming_defs Let_def)

lemma BaseMeta_call_ex_Swap:
  "BaseMeta_call ex_Swap [(''notional_currency'', v)] =
     Inr (PObj ''IRSwap''
       [(''asset_class'', PEnum ''AssetClass'' ''Rates''), (''fixed_rate'', PNone),
        (''notional_currency'', v), (''type'', PEnum ''AssetType'' ''Swap'')] None)"
  by (simp add: BaseMeta_call_def normalise_kwargs_notional_currency init_def init_value_def
      ex_Swap_def prop_name_of_def iskeyword_def kwlist_def dict_get_def
      del: normalise_kwargs.simps)

lemma BaseMeta_call_ex_Security:
  "BaseMeta_call ex_Security [] =
     Inr (PObj ''Security'' [(''bbid'', PNone), (''prime_id'', PNone), (''ticker'', PNone)] None)"
  by (simp add: BaseMeta_call_def init_def init_value_def ex_Security_def naming_defs)

lemma Security_from_dict_ticker:
  "Security_from_dict ex_env [(''ticker'', PStr ''GS'')] lg =
     Inr (PObj ''Security''
       [(''bbid'', PNone), (''prime_id'', PNone), (''ticker'', PStr ''GS'')] None, lg)"
proof -
  have p: "properties ex_Security = [''bbid'', ''prime_id'', ''ticker'']"
    by (simp add: ex_Security_def)
  show ?thesis
    by (simp add: ex_env_simps required_args_ex_Security BaseMeta_call_ex_Security p
        dict_get_def camelize_ex_Security prop_type_ex_Security
        Base_setattr_def object_setattr_def property_changed_def)
qed

subsection \<open>Enum coercion\<close>

lemma missing_search_find:
  "missing_search e ms (PStr s) =
     (case find (\<lambda>(n, v). lower v = lower s) ms of
        Some (n, v) \<Rightarrow> Inr (PEnum e v)
      | None \<Rightarrow> Inr PNone)"
  by (induction ms) (auto simp: lower_method_def)

text \<open>
  C4, as amended. For every enum and every raw value that is \<^verbatim>\<open>None\<close>, a string or a
  member of the enum (the values the signature of \<^verbatim>\<open>get_enum_value\<close> admits), enum
  coercion raises no exception. \<^verbatim>\<open>None\<close> and the string \<^verbatim>\<open>'None'\<close> give
  \<^verbatim>\<open>None\<close> and a member gives itself, without a warning; for any other string a member
  of exactly this value is tried first, then the first member whose value matches
  case-insensitively, and if no member matches the raw string is returned unchanged and one
  warning is logged.
\<close>

theorem get_enum_value_str:
  assumes "value = PNone \<or> (\<exists>s. value = PStr s) \<or> isinstance_enum E value"
  shows "get_enum_value E value =
     (if value = PNone \<or> value = PStr ''None'' then Inr (PNone, [])
      else if isinstance_enum E value then Inr (value, [])
      else case value of
        PStr s \<Rightarrow>
          (if s \<in> set (map snd (members E)) then Inr (PEnum (enum_name E) s, [])
           else case find (\<lambda>(n, v). lower v = lower s) (members E) of
             Some (n, v) \<Rightarrow> Inr (PEnum (enum_name E) v, [])
           | None \<Rightarrow> Inr (value, [NotAValidEntry value (enum_name E)]))
      | _ \<Rightarrow> Inr (value, []))"
  using assms
  by (auto simp: get_enum_value_def enum_call_def by_value_def EnumBase_missing_def
      missing_search_find isinstance_enum_def split: option.splits pyval.splits)

theorem get_enum_value_str_witness:
  "get_enum_value ex_AssetClass (PStr ''rates'') = Inr (PEnum ''AssetClass'' ''Rates'', []) \<and>
   get_enum_value ex_AssetClass (PStr ''SomeFutureValue'') =
     Inr (PStr ''SomeFutureValue'', [NotAValidEntry (PStr ''SomeFutureValue'') ''AssetClass''])"
  using get_enum_value_str [of "PStr ''rates''" ex_AssetClass]
    get_enum_value_str [of "PStr ''SomeFutureValue''" ex_AssetClass]
  by (simp add: ex_AssetClass_def isinstance_enum_def lower_def lower_char_def
      ascii_uppercase_def ascii_lowercase_def)

text \<open>
  C4 as stated fails: no member of the example enum has the value \<^verbatim>\<open>'None'\<close> in any
  case, yet the raw string \<^verbatim>\<open>'None'\<close> is not returned unchanged and nothing is logged;
  and a raw value that is no string, such as the number 5, raises.
\<close>

theorem get_enum_value_counterexample:
  "''none'' \<notin> set (map (\<lambda>(n, v). lower v) (members ex_AssetClass)) \<and>
   get_enum_value ex_AssetClass (PStr ''None'') = Inr (PNone, []) \<and>
   get_enum_value ex_AssetClass (PInt 5) = Inl (AttributeError ''lower'')"
  by (simp add: get_enum_value_def ex_AssetClass_def isinstance_enum_def enum_call_def
      by_value_def EnumBase_missing_def lower_method_def lower_def lower_char_def
      ascii_uppercase_def ascii_lowercase_def)

subsection \<open>Hash and equality\<close>

lemma all_equal_xor_hashes:
  assumes "\<And>u v. eq u v \<Longrightarrow> hash u = hash v"
  shows "all_equal eq a b props = Inr True \<Longrightarrow>
         xor_hashes hash a acc props = xor_hashes hash b acc props"
proof (induction props arbitrary: acc)
  case Nil
  then show ?case by simp
next
  case (Cons p props)
  from Cons.prems obtain u v where
    u: "object_getattribute a p = Inr u" and v: "object_getattribute b p = Inr v"
    and uv: "eq u v" and rest: "all_equal eq a b props = Inr True"
    by (auto split: sum.splits if_splits)
  from uv have "hash u = hash v" by (rule assms)
  with u v Cons.IH [OF rest] show ?case by (simp split: sum.splits)
qed

lemma all_equal_compute_hash:
  assumes "\<And>u v. eq u v \<Longrightarrow> hash u = hash v"
    and "all_equal eq a b (properties cls) = Inr True"
  shows "compute_hash hash cls a = compute_hash hash cls b"
proof (cases "properties cls")
  case Nil
  then show ?thesis by (simp add: compute_hash_def)
next
  case (Cons p props)
  with assms(2) obtain u v where
    u: "object_getattribute a p = Inr u" and v: "object_getattribute b p = Inr v"
    and uv: "eq u v" and rest: "all_equal eq a b props = Inr True"
    by (auto split: sum.splits if_splits)
  from uv have h: "hash u = hash v" by (rule assms(1))
  have x: "xor_hashes hash a acc props = xor_hashes hash b acc props" for acc
    using assms(1) rest by (rule all_equal_xor_hashes)
  from Cons u v h x show ?thesis by (simp add: compute_hash_def split: sum.splits)
qed

lemma Base_hash_cache_valid:
  "cache_valid hash cls self \<Longrightarrow> isinstance_Base self \<Longrightarrow>
   fst (Base_hash hash cls self) = compute_hash hash cls self"
  by (auto simp: cache_valid_def Base_hash_def isinstance_Base_def
      split: pyval.splits option.splits sum.splits)

lemma xor_hashes_foldl:
  "list_all2 (\<lambda>p h. \<exists>v. object_getattribute a p = Inr v \<and> hash v = Inr h) props hs \<Longrightarrow>
   xor_hashes hash a acc props = Inr (foldl (XOR) acc hs)"
  by (induction props hs arbitrary: acc rule: list_all2_induct) auto

lemma xor_hashes_cache:
  "xor_hashes hash (PObj c attrs h) acc props = xor_hashes hash (PObj c attrs h') acc props"
  by (induction props arbitrary: acc) (auto simp: object_getattribute_def split: sum.splits)

lemma compute_hash_cache:
  "compute_hash hash cls (PObj c attrs h) = compute_hash hash cls (PObj c attrs h')"
  by (auto simp: compute_hash_def object_getattribute_def xor_hashes_cache [of _ _ _ h _ _ h']
      split: list.splits sum.splits option.splits)

text \<open>
  The invariant holds after the constructor, which leaves the cache unset, after a setter
  of the object itself, which clears it, and after \<^verbatim>\<open>__hash__\<close>, which stores the
  hash it has computed.
\<close>

lemma init_cache_valid: "init cls kwargs = Inr self \<Longrightarrow> cache_valid hash cls self"
  by (auto simp: init_def cache_valid_def split: if_splits)

lemma setter_cache_valid:
  "key \<in> set (properties cls) \<Longrightarrow> cache_valid hash cls (Base_setattr cls self key value)"
  by (auto simp: Base_setattr_def object_setattr_def property_changed_def cache_valid_def
      split: pyval.splits option.splits)

lemma Base_hash_establishes_cache_valid:
  "cache_valid hash cls self \<Longrightarrow> cache_valid hash cls (snd (Base_hash hash cls self))"
  by (auto simp: Base_hash_def cache_valid_def compute_hash_cache [of _ _ _ _ "Some _" None]
      split: pyval.splits option.splits sum.splits)

text \<open>
  Where the invariant holds, equal objects have equal hashes. Let \<^verbatim>\<open>==\<close> and
  \<^verbatim>\<open>hash\<close> of the field values agree as Python demands (equal values have equal
  hashes), and let \<open>a\<close> and \<open>b\<close> be objects of one class whose cached hash, where set,
  is the hash of their current fields. If \<open>a == b\<close> then \<open>hash(a) = hash(b)\<close>. The hash
  of an object without properties is 1; otherwise it is the hashes of the field values, in
  the order of the field list, combined by XOR.
\<close>

lemma Base_hash_eq:
  assumes "\<And>u v. eq u v \<Longrightarrow> hash u = hash v"
    and "cache_valid hash cls a" and "cache_valid hash cls b"
    and "Base_eq eq cls a b = Inr True"
  shows "fst (Base_hash hash cls a) = fst (Base_hash hash cls b) \<and>
     (properties cls = [] \<longrightarrow> fst (Base_hash hash cls a) = Inr 1) \<and>
     (\<forall>p props h hs. properties cls = p # props \<and> p \<noteq> [] \<and>
        list_all2 (\<lambda>p h. \<exists>v. object_getattribute a p = Inr v \<and> hash v = Inr h)
          (p # props) (h # hs) \<longrightarrow>
        fst (Base_hash hash cls a) = Inr (foldl (XOR) h hs))"
proof -
  from assms(4) have ab: "isinstance_Base a" "isinstance_Base b"
    and eq: "all_equal eq a b (properties cls) = Inr True"
    by (auto simp: Base_eq_def isinstance_Base_def split: pyval.splits if_splits)
  have a: "fst (Base_hash hash cls a) = compute_hash hash cls a"
    using assms(2) ab(1) by (rule Base_hash_cache_valid)
  have b: "fst (Base_hash hash cls b) = compute_hash hash cls b"
    using assms(3) ab(2) by (rule Base_hash_cache_valid)
  from a b all_equal_compute_hash [OF assms(1) eq]
  have 1: "fst (Base_hash hash cls a) = fst (Base_hash hash cls b)" by simp
  have 2: "fst (Base_hash hash cls a) = Inr 1" if "properties cls = []"
    using a that by (simp add: compute_hash_def)
  have 3: "fst (Base_hash hash cls a) = Inr (foldl (XOR) h hs)"
    if "properties cls = p # props" "p \<noteq> []"
      "list_all2 (\<lambda>p h. \<exists>v. object_getattribute a p = Inr v \<and> hash v = Inr h) (p # props) (h # hs)"
    for p props h hs
    using a that by (auto simp: compute_hash_def xor_hashes_foldl)
  from 1 2 3 show ?thesis by blast
qed

lemma ex_hash_swap: "compute_hash ex_hash ex_Swap ex_swap_obj = Inr 3"
  by (simp add: compute_hash_def ex_Swap_def ex_swap_obj_def object_getattribute_def ex_hash_def)

lemma Base_hash_eq_ex_Swap:
  "Base_eq (=) ex_Swap ex_swap_obj ex_swap_hashed = Inr True \<and>
   cache_valid ex_hash ex_Swap ex_swap_hashed \<and>
   fst (Base_hash ex_hash ex_Swap ex_swap_obj) = Inr 3 \<and>
   fst (Base_hash ex_hash ex_Swap ex_swap_hashed) = Inr 3"
proof -
  have e: "Base_eq (=) ex_Swap ex_swap_obj ex_swap_hashed = Inr True"
    by (simp add: Base_eq_def ex_swap_obj_def ex_swap_hashed_def ex_Swap_def object_getattribute_def)
  have a: "cache_valid ex_hash ex_Swap ex_swap_obj"
    by (simp add: cache_valid_def ex_swap_obj_def)
  have b: "cache_valid ex_hash ex_Swap ex_swap_hashed"
    using ex_hash_swap compute_hash_cache [of ex_hash ex_Swap _ _ "Some 3" None]
    by (simp add: cache_valid_def ex_swap_hashed_def ex_swap_obj_def)
  have h: "fst (Base_hash ex_hash ex_Swap ex_swap_hashed) = Inr 3"
    by (simp add: Base_hash_def ex_swap_hashed_def)
  from Base_hash_eq [of "(=)" ex_hash ex_Swap ex_swap_obj ex_swap_hashed, OF _ a b e] e b h
  show ?thesis by simp
qed

text \<open>
  The invariant does not survive a change of an object held in a field.
\<close>

lemma BaseMeta_call_ex_Leg: "BaseMeta_call ex_Leg [(''quantity'', PInt n)] = Inr (ex_leg n)"
proof -
  have n: "normalise_kwargs kw [(''quantity'', v)] [] = Inr [(''quantity'', v)]" for kw v
    by (simp add: naming_defs Let_def)
  show ?thesis
    by (simp add: BaseMeta_call_def n init_def init_value_def ex_Leg_def ex_leg_def
        prop_name_of_def iskeyword_def kwlist_def dict_get_def del: normalise_kwargs.simps)
qed

lemma BaseMeta_call_ex_Trade: "BaseMeta_call ex_Trade [(''leg'', v)] = Inr (PObj ''Trade'' [(''leg'', v)] None)"
proof -
  have n: "normalise_kwargs kw [(''leg'', v)] [] = Inr [(''leg'', v)]" for kw
    by (simp add: naming_defs Let_def)
  show ?thesis
    by (simp add: BaseMeta_call_def n init_def init_value_def ex_Trade_def
        prop_name_of_def iskeyword_def kwlist_def dict_get_def del: normalise_kwargs.simps)
qed

lemma ex_field_hash_leg: "ex_field_hash (ex_leg n) = Inr n"
  by (simp add: ex_field_hash_def ex_leg_def Base_hash_def compute_hash_def ex_Leg_def
      object_getattribute_def ex_hash_def)

lemma compute_hash_ex_trade: "compute_hash ex_field_hash ex_Trade (ex_trade n h) = Inr n"
  by (simp add: compute_hash_def ex_Trade_def ex_trade_def object_getattribute_def
      ex_field_hash_leg)

text \<open>
  C8, on the code. A trade is constructed with a leg of quantity 1 and hashed: the hash
  is 1, and \<^verbatim>\<open>__hash__\<close> stores it in the trade. The statement
  \<^verbatim>\<open>trade.leg.quantity = 2\<close> runs \<^verbatim>\<open>_property_changed\<close> of the leg, which clears
  the hash cached in the leg (the one that hashing the trade left there) and leaves the
  one cached in the trade. A second trade,
  constructed with a leg of quantity 2, is then equal to the first (\<^verbatim>\<open>__eq__\<close> skips
  the comparison of the hashes, the second trade having none cached, and the fields are
  equal), in both directions, and its hash is 2; the hash of the first trade is still 1,
  which is not the XOR of the hashes of its current field values: that is 2.
\<close>

theorem stale_hash_after_nested_mutation:
  "BaseMeta_call ex_Leg [(''quantity'', PInt 1)] = Inr (ex_leg 1) \<and>
   BaseMeta_call ex_Trade [(''leg'', ex_leg 1)] = Inr (ex_trade 1 None) \<and>
   Base_hash ex_field_hash ex_Trade (ex_trade 1 None) = (Inr 1, ex_trade 1 (Some 1)) \<and>
   nested_setattr ex_Leg (ex_trade 1 (Some 1)) ''leg'' ''quantity'' (PInt 2) =
     Inr (ex_trade 2 (Some 1)) \<and>
   BaseMeta_call ex_Leg [(''quantity'', PInt 2)] = Inr (ex_leg 2) \<and>
   BaseMeta_call ex_Trade [(''leg'', ex_leg 2)] = Inr (ex_trade 2 None) \<and>
   Base_eq ex_field_eq ex_Trade (ex_trade 2 (Some 1)) (ex_trade 2 None) = Inr True \<and>
   Base_eq ex_field_eq ex_Trade (ex_trade 2 None) (ex_trade 2 (Some 1)) = Inr True \<and>
   fst (Base_hash ex_field_hash ex_Trade (ex_trade 2 (Some 1))) = Inr 1 \<and>
   fst (Base_hash ex_field_hash ex_Trade (ex_trade 2 None)) = Inr 2 \<and>
   compute_hash ex_field_hash ex_Trade (ex_trade 2 (Some 1)) = Inr 2"
proof -
  have 1: "BaseMeta_call ex_Trade [(''leg'', ex_leg n)] = Inr (ex_trade n None)" for n
    by (simp add: BaseMeta_call_ex_Trade ex_trade_def)
  have 2: "Base_hash ex_field_hash ex_Trade (ex_trade 1 None) = (Inr 1, ex_trade 1 (Some 1))"
    using compute_hash_ex_trade [of 1 None] by (simp add: Base_hash_def ex_trade_def)
  have 3: "nested_setattr ex_Leg (ex_trade 1 (Some 1)) ''leg'' ''quantity'' (PInt 2) =
     Inr (ex_trade 2 (Some 1))"
    by (simp add: nested_setattr_def ex_trade_def ex_leg_def object_getattribute_def
        Base_setattr_def object_setattr_def property_changed_def ex_Leg_def)
  have e: "ex_field_eq (ex_leg 2) (ex_leg 2)"
    by (simp add: ex_field_eq_def ex_leg_def Base_eq_def ex_Leg_def object_getattribute_def)
  have 4: "Base_eq ex_field_eq ex_Trade (ex_trade 2 h) (ex_trade 2 h') = Inr True"
    if "h = None \<or> h' = None" for h h'
    using that e by (auto simp: Base_eq_def ex_trade_def ex_Trade_def object_getattribute_def)
  have 5: "fst (Base_hash ex_field_hash ex_Trade (ex_trade 2 (Some 1))) = Inr 1"
    by (simp add: Base_hash_def ex_trade_def)
  have 6: "fst (Base_hash ex_field_hash ex_Trade (ex_trade 2 None)) = Inr 2"
    using compute_hash_ex_trade [of 2 None] by (simp add: Base_hash_def ex_trade_def)
  from 1 2 3 4 5 6 show ?thesis
    by (simp add: BaseMeta_call_ex_Leg compute_hash_ex_trade)
qed

subsection \<open>Clone\<close>

lemma clone_loop_not_property:
  "(key, value) \<in> set kwargs \<Longrightarrow> key \<notin> set (properties cls) \<Longrightarrow>
   clone_loop cls st c kwargs = Inl (ValueError ''Only properties may be passed as kwargs'')"
  by (induction kwargs arbitrary: st) auto

text \<open>
  C9, as amended. \<^verbatim>\<open>clone\<close> with an override key that is not the name of a declared
  field fails with \<^verbatim>\<open>ValueError\<close>; so does the wire (camelCase) spelling of a declared
  field, which is no such name. \<^verbatim>\<open>clone\<close> with a declared field in its canonical
  (snake_case) spelling, e.g. \<^verbatim>\<open>fixed_rate\<close>, returns a new object of the same class at
  a fresh address, whose overridden field holds the new value and whose every other
  attribute is that of the original; every object of the store, the original among them,
  is left as it was.
\<close>

theorem clone_override:
  assumes "self < length st" and "st ! self = PObj c attrs h"
  shows "(key \<notin> set (properties cls) \<longrightarrow>
            clone cls st self [(key, value)] =
              Inl (ValueError ''Only properties may be passed as kwargs'')) \<and>
         (key \<in> set (properties cls) \<longrightarrow>
            (\<exists>st' a. clone cls st self [(key, value)] = Inr (st', a) \<and>
               a \<noteq> self \<and> a < length st' \<and>
               (\<forall>i < length st. st' ! i = st ! i) \<and>
               st' ! a = PObj c (AList.update key value attrs) None \<and>
               object_getattribute (st' ! a) key = Inr value \<and>
               (\<forall>p. p \<noteq> key \<longrightarrow>
                  object_getattribute (st' ! a) p = object_getattribute (st ! self) p)))"
  using assms
  by (auto simp: clone_def copy_copy_def Base_setattr_def object_setattr_def property_changed_def
      object_getattribute_def nth_append AList.update_conv' split: option.splits)

theorem clone_override_witness:
  "clone ex_Swap [ex_swap_obj] 0 [(''notAField'', PInt 1)] =
     Inl (ValueError ''Only properties may be passed as kwargs'') \<and>
   (\<exists>st' a. clone ex_Swap [ex_swap_obj] 0 [(''fixed_rate'', PFloat (2 / 100))] = Inr (st', a) \<and>
      a \<noteq> 0 \<and> st' ! 0 = ex_swap_obj \<and>
      object_getattribute (st' ! a) ''fixed_rate'' = Inr (PFloat (2 / 100)) \<and>
      object_getattribute (st' ! a) ''notional_currency'' = Inr (PStr ''USD''))"
  using clone_override [of 0 "[ex_swap_obj]" "''IRSwap''" _ None "''notAField''" ex_Swap "PInt 1"]
    clone_override [of 0 "[ex_swap_obj]" "''IRSwap''" _ None "''fixed_rate''" ex_Swap "PFloat (2 / 100)"]
  by (auto simp: ex_swap_obj_def ex_Swap_def object_getattribute_def)

text \<open>
  C9 as stated fails: \<^verbatim>\<open>fixed_rate\<close> is a declared field of the swap, and
  \<^verbatim>\<open>clone(fixedRate=0.02)\<close> raises.
\<close>

theorem clone_wire_name_counterexample:
  "''fixed_rate'' \<in> set (properties ex_Swap) \<and>
   clone ex_Swap [ex_swap_obj] 0 [(''fixedRate'', PFloat (2 / 100))] =
     Inl (ValueError ''Only properties may be passed as kwargs'')"
  by (simp add: clone_def copy_copy_def ex_Swap_def)

subsection \<open>Required parameters\<close>

lemma Base_from_dict_required_loop:
  "Base_from_dict \<Gamma> cls args values required lg =
     (case required_loop \<Gamma> cls args values required lg of
        Inl exc \<Rightarrow> Inl exc
      | Inr (required', values', lg') \<Rightarrow> Base_from_dict \<Gamma> cls [] values' required' lg')"
proof (induction args arbitrary: "values" required lg)
  case Nil
  show ?case by simp
next
  case (Cons arg args)
  show ?case
    by (simp add: Cons.IH split: sum.splits prod.splits option.splits pytype.splits pyval.splits)
qed

lemma dict_pop_default_eq:
  "dict_pop_default values arg PNone = (dict_get values arg PNone, AList.delete arg values)"
proof (cases "map_of values arg")
  case None
  then have "arg \<notin> fst ` set values" by (simp add: map_of_eq_None_iff)
  with None show ?thesis by (simp add: dict_pop_default_def dict_get_def)
next
  case (Some v)
  then show ?thesis by (simp add: dict_pop_default_def dict_get_def)
qed

lemma get_enum_value_None: "get_enum_value E PNone = Inr (PNone, [])"
  by (simp add: get_enum_value_def)

lemma required_loop_step:
  assumes "required_loop \<Gamma> cls (arg # args) values required lg = Inr (required', values', lg')"
  shows "\<exists>v lg1.
    required_loop \<Gamma> cls args (AList.delete arg values) (AList.update arg v required) lg1 =
       Inr (required', values', lg') \<and>
    (map_of values arg = None \<longrightarrow> v = PNone) \<and>
    (uncoerced \<Gamma> cls arg \<longrightarrow> v = dict_get values arg PNone)"
  using assms
  by (auto simp: dict_pop_default_eq uncoerced_def get_enum_value_None dict_get_def
      split: sum.splits option.splits pytype.splits pyval.splits prod.splits)

lemma required_loop_pops:
  assumes "required_loop \<Gamma> cls args values required lg = Inr (required', values', lg')"
    and "distinct args"
  shows "values' = filter (\<lambda>(k, v). k \<notin> set args) values \<and>
     (\<forall>k. k \<notin> set args \<longrightarrow> map_of required' k = map_of required k) \<and>
     (\<forall>arg \<in> set args. map_of values arg = None \<longrightarrow> map_of required' arg = Some PNone) \<and>
     (\<forall>arg \<in> set args. uncoerced \<Gamma> cls arg \<longrightarrow>
        map_of required' arg = Some (dict_get values arg PNone))"
  using assms
proof (induction args arbitrary: "values" required lg)
  case Nil
  then show ?case by simp
next
  case (Cons arg args)
  obtain v lg1 where
    step: "required_loop \<Gamma> cls args (AList.delete arg values) (AList.update arg v required) lg1 =
       Inr (required', values', lg')"
    and none: "map_of values arg = None \<longrightarrow> v = PNone"
    and unco: "uncoerced \<Gamma> cls arg \<longrightarrow> v = dict_get values arg PNone"
    using required_loop_step [OF Cons.prems(1)] by auto
  from Cons.prems(2) have d: "distinct args" and notin: "arg \<notin> set args" by simp_all
  note IH = Cons.IH [OF step d]
  from IH have vals: "values' = filter (\<lambda>(k, v). k \<notin> set args) (AList.delete arg values)"
    by simp
  have 1: "values' = filter (\<lambda>(k, v). k \<notin> set (arg # args)) values"
    unfolding vals AList.delete_eq by (auto intro: filter_cong)
  from IH have frame: "\<And>k. k \<notin> set args \<Longrightarrow> map_of required' k = map_of (AList.update arg v required) k"
    by simp
  have 2: "\<forall>k. k \<notin> set (arg # args) \<longrightarrow> map_of required' k = map_of required k"
    using frame by (simp add: update_conv')
  from frame [OF notin] have here: "map_of required' arg = Some v"
    by (simp add: update_conv')
  have other: "map_of (AList.delete arg values) a = map_of values a" if "a \<in> set args" for a
    using that notin by (auto simp: delete_conv')
  have 3: "\<forall>a \<in> set (arg # args). map_of values a = None \<longrightarrow> map_of required' a = Some PNone"
    using IH here none other by auto
  have 4: "\<forall>a \<in> set (arg # args). uncoerced \<Gamma> cls a \<longrightarrow>
        map_of required' a = Some (dict_get values a PNone)"
    using IH here unco other by (auto simp: dict_get_def)
  from 1 2 3 4 show ?case by blast
qed

text \<open>
  C6, as amended. During construction from a dictionary, the value of every required
  constructor parameter is popped from the input dictionary under the parameter's own
  (canonical) name only. Let the loop of \<^verbatim>\<open>_from_dict\<close> over the (distinct) required
  parameters end with \<open>required\<close> collected and the dictionary \<open>values'\<close> left. Then
  \<open>values'\<close> is the input without the keys that are required parameters, so that an
  entry under a wire (camelCase) name stays; \<open>required\<close> holds \<^verbatim>\<open>None\<close> for every
  parameter that is no key of the input, whether its wire name is one or not, and the
  input's value for every parameter that is a key and whose type asks for no coercion; and
  \<^verbatim>\<open>_from_dict\<close> goes on to call the constructor with \<open>required\<close> and then
  \<^verbatim>\<open>__from_dict\<close> with \<open>values'\<close>, which is where a wire-named entry is applied.
\<close>

theorem required_popped_by_parameter_name:
  assumes "required_loop \<Gamma> cls (required_args cls) values [] lg = Inr (required, values', lg')"
    and "distinct (required_args cls)"
  shows "values' = filter (\<lambda>(k, v). k \<notin> set (required_args cls)) values \<and>
     (\<forall>arg \<in> set (required_args cls).
        map_of values arg = None \<longrightarrow> map_of required arg = Some PNone) \<and>
     (\<forall>arg \<in> set (required_args cls).
        uncoerced \<Gamma> cls arg \<longrightarrow> map_of required arg = Some (dict_get values arg PNone)) \<and>
     Base_from_dict \<Gamma> cls (required_args cls) values [] lg =
       (case BaseMeta_call cls required of
          Inl exc \<Rightarrow> Inl exc
        | Inr instance \<Rightarrow> Base__from_dict \<Gamma> cls (properties cls) values' instance lg')"
proof -
  have "Base_from_dict \<Gamma> cls (required_args cls) values [] lg =
      Base_from_dict \<Gamma> cls [] values' required lg'"
    using assms(1) by (simp add: Base_from_dict_required_loop [of _ _ "required_args cls"])
  then have B: "Base_from_dict \<Gamma> cls (required_args cls) values [] lg =
       (case BaseMeta_call cls required of
          Inl exc \<Rightarrow> Inl exc
        | Inr instance \<Rightarrow> Base__from_dict \<Gamma> cls (properties cls) values' instance lg')"
    by simp
  from required_loop_pops [OF assms] B show ?thesis by blast
qed

lemma required_loop_ex_Swap:
  "required_loop ex_env ex_Swap [''notional_currency''] d [] [] =
     Inr ([(''notional_currency'', dict_get d ''notional_currency'' PNone)],
          AList.delete ''notional_currency'' d, [])"
proof -
  have t: "prop_type ex_env ex_Swap (prop_name_of ''notional_currency'') = Inr (Some OtherType)"
    by (simp add: prop_type_def ex_Swap_def resolve_def naming_defs)
  show ?thesis by (simp add: t dict_pop_default_eq)
qed

theorem required_popped_by_parameter_name_witness:
  "required_loop ex_env ex_Swap (required_args ex_Swap)
     [(''notional_currency'', PStr ''USD''), (''fixedRate'', PFloat (1 / 100))] [] [] =
     Inr ([(''notional_currency'', PStr ''USD'')], [(''fixedRate'', PFloat (1 / 100))], []) \<and>
   distinct (required_args ex_Swap) \<and>
   Base_from_dict ex_env ex_Swap (required_args ex_Swap)
     [(''notional_currency'', PStr ''USD''), (''fixedRate'', PFloat (1 / 100))] [] [] =
     (case BaseMeta_call ex_Swap [(''notional_currency'', PStr ''USD'')] of
        Inl exc \<Rightarrow> Inl exc
      | Inr instance \<Rightarrow>
          Base__from_dict ex_env ex_Swap (properties ex_Swap)
            [(''fixedRate'', PFloat (1 / 100))] instance [])"
proof -
  have l: "required_loop ex_env ex_Swap (required_args ex_Swap)
     [(''notional_currency'', PStr ''USD''), (''fixedRate'', PFloat (1 / 100))] [] [] =
     Inr ([(''notional_currency'', PStr ''USD'')], [(''fixedRate'', PFloat (1 / 100))], [])"
    by (simp add: required_args_ex_Swap required_loop_ex_Swap dict_get_def
        del: required_loop.simps)
  have d: "distinct (required_args ex_Swap)" by (simp add: required_args_ex_Swap)
  from required_popped_by_parameter_name [OF l d] l d show ?thesis by simp
qed

text \<open>
  C6 as stated fails: the required parameter \<^verbatim>\<open>notional_currency\<close> is given under its
  wire name only; the loop supplies \<^verbatim>\<open>None\<close> for it and pops nothing.
\<close>

theorem wire_name_not_popped_counterexample:
  "camelize ''notional_currency'' = ''notionalCurrency'' \<and>
   required_loop ex_env ex_Swap (required_args ex_Swap)
     [(''notionalCurrency'', PStr ''USD'')] [] [] =
     Inr ([(''notional_currency'', PNone)], [(''notionalCurrency'', PStr ''USD'')], [])"
  by (simp add: camelize_ex_Swap required_args_ex_Swap required_loop_ex_Swap dict_get_def
      del: required_loop.simps)

subsection \<open>Date-time fields\<close>

lemma sub_seconds_search_scenario:
  "sub_seconds_search ''2020-01-01T00:00:00.1234567Z'' =
     Some (''2020-01-01T00:00:00'', ''1234567'', [])"
  by (simp add: sub_seconds_here_def is_digit_def digits_def)

lemma truncate_sub_seconds_scenario:
  "truncate_sub_seconds ''2020-01-01T00:00:00.1234567Z'' = ''2020-01-01T00:00:00.123456Z''"
  by (simp add: truncate_sub_seconds_def sub_seconds_search_scenario
      del: sub_seconds_search.simps)

text \<open>
  A string is parsed after its sub-seconds are cut to six digits, whatever the parser: the
  over-precise time stamp of the spec's scenario 2 reaches \<^verbatim>\<open>isoparse\<close> with six.
\<close>

lemma coerce_datetime_scenario:
  "coerce_datetime \<Gamma> (PStr ''2020-01-01T00:00:00.1234567Z'') =
     map_sum id PDatetime (isoparse \<Gamma> ''2020-01-01T00:00:00.123456Z'')"
  by (simp add: coerce_datetime_def isinstance_int_def truncate_sub_seconds_scenario)

text \<open>An \<^verbatim>\<open>int\<close> never becomes a date-time value.\<close>

lemma coerce_datetime_int:
  "isinstance_int v \<Longrightarrow> coerce_datetime \<Gamma> v \<noteq> Inr (PDatetime t)"
  by (cases "fromtimestamp_isoformat \<Gamma> (int_of v)") (auto simp: coerce_datetime_def)

text \<open>
  C5, on the code. A field declared as a date-time is given epoch milliseconds: the object
  holds the ISO-8601 text of that instant, a string and no date-time value. Given the
  over-precise string, it holds the date-time value of the string cut to six sub-second
  digits.
\<close>

theorem datetime_from_epoch_milliseconds:
  "from_dict ex_env ex_Event (PDict [(''time'', PInt 1577836800000)]) [] =
     Inr (PObj ''Event'' [(''time'', PStr ''2020-01-01T00:00:00'')] None, []) \<and>
   from_dict ex_env ex_Event (PDict [(''time'', PStr ''2020-01-01T00:00:00.1234567Z'')]) [] =
     Inr (PObj ''Event''
       [(''time'', PDatetime (Datetime (Date 2020 1 1) 0 0 0 123456 (Some 0)))] None, [])"
proof -
  have i: "\<not> instrument ex_Event" by (simp add: ex_Event_def)
  have r: "required_args ex_Event = []" by (simp add: required_args_def ex_Event_def)
  have p: "properties ex_Event = [''time'']" by (simp add: ex_Event_def)
  have b: "BaseMeta_call ex_Event [] = Inr (PObj ''Event'' [(''time'', PNone)] None)"
    by (simp add: BaseMeta_call_def init_def init_value_def ex_Event_def naming_defs)
  have t: "prop_type ex_env ex_Event ''time'' = Inr (Some DatetimeType)"
    by (simp add: prop_type_def ex_Event_def resolve_def)
  have c1: "coerce_datetime ex_env (PInt 1577836800000) = Inr (PStr ''2020-01-01T00:00:00'')"
    by (simp add: coerce_datetime_def isinstance_int_def int_of_def ex_env_simps
        ex_fromtimestamp_isoformat_def)
  have c2: "coerce_datetime ex_env (PStr ''2020-01-01T00:00:00.1234567Z'') =
      Inr (PDatetime (Datetime (Date 2020 1 1) 0 0 0 123456 (Some 0)))"
    by (simp add: coerce_datetime_scenario ex_env_simps ex_isoparse_def)
  show ?thesis
    by (simp add: i r p b t c1 c2 dict_get_def Base_setattr_def object_setattr_def
        property_changed_def)
qed

subsection \<open>Polymorphic construction\<close>

text \<open>
  C10. \<^verbatim>\<open>Instrument.from_dict\<close> applied to the empty dictionary returns \<^verbatim>\<open>None\<close>:
  no object is constructed, no exception raised and nothing logged.
\<close>

theorem Instrument_from_dict_empty:
  assumes "instrument cls"
  shows "from_dict \<Gamma> cls (PDict []) lg = Inr (PNone, lg)"
  using assms by (simp add: Instrument_dispatch_def)

theorem Instrument_from_dict_empty_witness:
  "instrument ex_Swap \<and> from_dict ex_env ex_Swap (PDict []) [] = Inr (PNone, [])"
  using Instrument_from_dict_empty [of ex_Swap ex_env "[]"]
  by (simp add: ex_Swap_def)

lemma Instrument_dispatch_wire:
  "Instrument_dispatch ex_env
     [(''assetClass'', PStr ''Rates''), (''type'', PStr ''Swap''), (''fixedRate'', PFloat (1 / 100))] [] =
   Inl (KeyError ''asset_class'')"
  by (simp add: Instrument_dispatch_def ex_registry dict_pop_def)

lemma Instrument_dispatch_canonical:
  "Instrument_dispatch ex_env
     [(''asset_class'', PStr ''Rates''), (''type'', PStr ''Swap''), (''fixedRate'', PFloat (1 / 100))] [] =
   Inr (Construct ex_Swap [(''fixedRate'', PFloat (1 / 100))] [])"
  by (simp add: Instrument_dispatch_def ex_registry dict_pop_def ex_env_simps
      get_enum_value_Rates get_enum_value_Swap)

text \<open>
  C2, on the code. The dictionary of the spec's scenario 1 carries the asset class under
  its wire name \<^verbatim>\<open>assetClass\<close>; \<^verbatim>\<open>Instrument.from_dict\<close> pops \<^verbatim>\<open>asset_class\<close>
  and raises \<^verbatim>\<open>KeyError\<close>. With the canonical key the same dictionary resolves to the
  swap class and yields an object whose \<^verbatim>\<open>fixed_rate\<close> is 0.01.
\<close>

theorem scenario_1_wire_discriminant:
  "from_dict ex_env ex_Swap
     (PDict [(''assetClass'', PStr ''Rates''), (''type'', PStr ''Swap''),
             (''fixedRate'', PFloat (1 / 100))]) [] =
     Inl (KeyError ''asset_class'') \<and>
   from_dict ex_env ex_Swap
     (PDict [(''asset_class'', PStr ''Rates''), (''type'', PStr ''Swap''),
             (''fixedRate'', PFloat (1 / 100))]) [] =
     Inr (PObj ''IRSwap''
       [(''asset_class'', PEnum ''AssetClass'' ''Rates''), (''fixed_rate'', PFloat (1 / 100)),
        (''notional_currency'', PNone), (''type'', PEnum ''AssetType'' ''Swap'')] None, [])"
proof -
  have i: "instrument ex_Swap" by (simp add: ex_Swap_def)
  have p: "properties ex_Swap = [''asset_class'', ''fixed_rate'', ''notional_currency'', ''type'']"
    by (simp add: ex_Swap_def)
  have n: "prop_name_of ''notional_currency'' = ''notional_currency''"
    by (simp add: naming_defs)
  show ?thesis
    by (simp add: i Instrument_dispatch_wire Instrument_dispatch_canonical required_args_ex_Swap
        n prop_type_ex_Swap dict_pop_default_def BaseMeta_call_ex_Swap p dict_get_def
        camelize_ex_Swap Base_setattr_def object_setattr_def property_changed_def)
qed

text \<open>
  C3, as amended. For every input dictionary that carries both discriminants under the
  keys \<^verbatim>\<open>asset_class\<close> and \<^verbatim>\<open>type\<close>, with values that enum coercion accepts, and
  whose discriminant tuple matches no registered concrete type, \<^verbatim>\<open>Instrument.from_dict\<close>
  raises nothing itself: it hands the dictionary without the two keys to
  \<^verbatim>\<open>Security.from_dict\<close> and returns what that returns.
\<close>

theorem Instrument_from_dict_fallback:
  assumes "instrument cls"
    and "asset_class_and_type_to_instrument \<Gamma> = Inr reg"
    and "map_of values ''asset_class'' = Some v1"
    and "map_of values ''type'' = Some v2"
    and "get_enum_value (AssetClass \<Gamma>) v1 = Inr (asset_class, l1)"
    and "get_enum_value (AssetType \<Gamma>) v2 = Inr (asset_type, l2)"
    and "map_of reg (asset_class, asset_type) = None"
  shows "from_dict \<Gamma> cls (PDict values) lg =
     Security_from_dict \<Gamma> (AList.delete ''type'' (AList.delete ''asset_class'' values))
       (lg @ l1 @ l2)"
proof -
  from assms(3) have ne: "values \<noteq> []" by auto
  have "Instrument_dispatch \<Gamma> values lg =
      Inr (Fallback (AList.delete ''type'' (AList.delete ''asset_class'' values)) (lg @ l1 @ l2))"
    using ne assms(2-7) by (simp add: Instrument_dispatch_def dict_pop_def)
  with assms(1) show ?thesis by simp
qed

theorem Instrument_from_dict_fallback_witness:
  "from_dict ex_env ex_Swap
     (PDict [(''asset_class'', PStr ''Rates''), (''type'', PStr ''Swaption''),
             (''ticker'', PStr ''GS'')]) [] =
   Inr (PObj ''Security''
         [(''bbid'', PNone), (''prime_id'', PNone), (''ticker'', PStr ''GS'')] None,
        [NotAValidEntry (PStr ''Swaption'') ''AssetType''])"
proof -
  have i: "instrument ex_Swap" by (simp add: ex_Swap_def)
  have m: "map_of [((PEnum ''AssetClass'' ''Cash'', PEnum ''AssetType'' ''Currency''), ex_Forward),
          ((PEnum ''AssetClass'' ''Cash'', PEnum ''AssetType'' ''Forward''), ex_Forward),
          ((PEnum ''AssetClass'' ''Rates'', PEnum ''AssetType'' ''Swap''), ex_Swap)]
        (PEnum ''AssetClass'' ''Rates'', PStr ''Swaption'') = None"
    by simp
  from Instrument_from_dict_fallback [OF i ex_registry _ _ _ _ m,
      of "[(''asset_class'', PStr ''Rates''), (''type'', PStr ''Swaption''), (''ticker'', PStr ''GS'')]"
         "PStr ''Rates''" "PStr ''Swaption''" "[]" "[NotAValidEntry (PStr ''Swaption'') ''AssetType'']" "[]"]
  show ?thesis
    by (simp add: ex_env_simps(1,2) get_enum_value_Rates get_enum_value_Swaption
        Security_from_dict_ticker)
qed

text \<open>
  C3 as stated fails: a dictionary that is not empty and has no discriminant, so that it
  matches no registered type, raises \<^verbatim>\<open>KeyError\<close>.
\<close>

theorem Instrument_from_dict_no_discriminant_counterexample:
  "from_dict ex_env ex_Swap (PDict [(''ticker'', PStr ''GS'')]) [] = Inl (KeyError ''asset_class'')"
proof -
  have i: "instrument ex_Swap" by (simp add: ex_Swap_def)
  show ?thesis by (simp add: i Instrument_dispatch_def ex_registry dict_pop_def)
qed

subsection \<open>The round trip\<close>

lemma foldl_update_distinct:
  "distinct (map fst (acc @ ps)) \<Longrightarrow>
   foldl (\<lambda>d (k, v). AList.update k v d) acc ps = acc @ ps"
proof (induction ps arbitrary: acc)
  case Nil
  then show ?case by simp
next
  case (Cons kv ps)
  obtain k v where kv: "kv = (k, v)" by (cases kv)
  from Cons.prems kv have "k \<notin> fst ` set acc" by auto
  then have u: "AList.update k v acc = acc @ [(k, v)]"
    by (induction acc) auto
  from Cons.prems kv have "distinct (map fst ((acc @ [(k, v)]) @ ps))" by simp
  from Cons.IH [OF this] u kv show ?case by simp
qed

lemma dict_of_distinct: "distinct (map fst ps) \<Longrightarrow> dict_of ps = ps"
  using foldl_update_distinct [of "[]" ps] by (simp add: dict_of_def)

lemma getattributes_present:
  "\<forall>p \<in> set ps. map_of attrs p \<noteq> None \<Longrightarrow>
   getattributes (PObj c attrs h) ps = Inr (map (\<lambda>p. dict_get attrs p PNone) ps)"
  by (induction ps) (auto simp: object_getattribute_def dict_get_def)

lemma as_dict_full:
  assumes "\<forall>p \<in> set (properties cls). \<exists>v. map_of attrs p = Some v \<and> v \<noteq> PNone"
    and "distinct (map (wire_key as_camel_case) (properties cls))"
  shows "as_dict cls (PObj c attrs h) as_camel_case =
     Inr (map (\<lambda>p. (wire_key as_camel_case p, dict_get attrs p PNone)) (properties cls))"
proof -
  let ?props = "properties cls"
  let ?d = "map (\<lambda>p. (wire_key as_camel_case p, dict_get attrs p PNone)) ?props"
  from assms(1) have g: "getattributes (PObj c attrs h) ?props = Inr (map (\<lambda>p. dict_get attrs p PNone) ?props)"
    by (intro getattributes_present) auto
  have z: "zip (map (wire_key as_camel_case) ?props) (map (\<lambda>p. dict_get attrs p PNone) ?props) = ?d"
    by (simp add: zip_map_map zip_same_conv_map)
  have f: "filter (\<lambda>(p, v). v \<noteq> PNone) ?d = ?d"
    using assms(1) by (auto simp: filter_id_conv dict_get_def)
  have k: "map fst ?d = map (wire_key as_camel_case) ?props" by (simp add: comp_def)
  have "dict_of ?d = ?d" using assms(2) by (intro dict_of_distinct) (simp add: comp_def)
  moreover have "(if as_camel_case then map camelize ps else ps) = map (wire_key as_camel_case) ps" for ps
    by (induction ps) (simp_all add: wire_key_def)
  ultimately show ?thesis using g z f by (simp add: as_dict_def Let_def)
qed

lemma get_enum_value_member: "isinstance_enum E v \<Longrightarrow> get_enum_value E v = Inr (v, [])"
  by (auto simp: get_enum_value_def isinstance_enum_def split: pyval.splits)

lemma enum_items_members:
  "list_all (isinstance_enum E) xs \<Longrightarrow> enum_items E xs lg = Inr (xs, lg)"
  by (induction xs arbitrary: lg) (auto simp: get_enum_value_member)

lemma from_dict_items_objects:
  "list_all isinstance_Base_or_EnumBase xs \<Longrightarrow> from_dict_items \<Gamma> c xs lg = Inr (xs, lg)"
  by (induction xs arbitrary: lg) auto

lemma Base_setattr_property:
  "q \<in> set (properties cls) \<Longrightarrow>
   Base_setattr cls (PObj c A h) q v = PObj c (AList.update q v A) None"
  by (simp add: Base_setattr_def object_setattr_def property_changed_def)

lemma Base__from_dict_skip:
  assumes "lookup d q = PNone"
  shows "Base__from_dict \<Gamma> cls (q # qs) d self lg = Base__from_dict \<Gamma> cls qs d self lg"
  using assms by (simp add: lookup_def)

lemma Base__from_dict_set:
  assumes "lookup d q \<noteq> PNone" and "field_value_ok \<Gamma> cls q (lookup d q)"
    and "q \<in> set (properties cls)"
  shows "Base__from_dict \<Gamma> cls (q # qs) d (PObj c A None) lg =
         Base__from_dict \<Gamma> cls qs d (PObj c (AList.update q (lookup d q) A) None) lg"
proof -
  define v where "v = lookup d q"
  have v: "dict_get d q (dict_get d (camelize q) PNone) = v" by (simp add: v_def lookup_def)
  from assms(1) have nn: "v \<noteq> PNone" by (simp add: v_def)
  from assms(2) have ok: "field_value_ok \<Gamma> cls q v" by (simp add: v_def)
  have s: "Base_setattr cls (PObj c A None) q x = PObj c (AList.update q x A) None" for x
    using assms(3) by (rule Base_setattr_property)
  from ok obtain pt where pt: "prop_type \<Gamma> cls q = Inr pt"
    by (auto simp: field_value_ok_def split: sum.splits)
  have "Base__from_dict \<Gamma> cls (q # qs) d (PObj c A None) lg =
         Base__from_dict \<Gamma> cls qs d (PObj c (AList.update q v A) None) lg"
  proof (cases pt)
    case None
    with pt nn show ?thesis by (simp add: v s)
  next
    case (Some t)
    show ?thesis
    proof (cases t)
      case OtherType
      with pt Some nn show ?thesis by (simp add: v s)
    next
      case DatetimeType
      with pt Some ok show ?thesis by (simp add: field_value_ok_def)
    next
      case DateType
      with pt Some ok show ?thesis by (simp add: field_value_ok_def)
    next
      case (EnumType E)
      with pt Some ok have "get_enum_value E v = Inr (v, [])"
        by (simp add: field_value_ok_def get_enum_value_member)
      with pt Some EnumType nn show ?thesis by (simp add: v s)
    next
      case (BaseType c')
      with pt Some ok have "isinstance_Base v" by (simp add: field_value_ok_def)
      with pt Some BaseType nn show ?thesis by (simp add: v s)
    next
      case TupleType
      with pt Some ok obtain xs where xs: "v = PTuple xs"
        by (auto simp: field_value_ok_def split: pyval.splits)
      from pt Some TupleType ok xs obtain it where it: "item_type \<Gamma> cls q = Inr it"
        by (auto simp: field_value_ok_def split: sum.splits)
      have "(case it of
               BaseType c' \<Rightarrow> from_dict_items \<Gamma> c' xs lg = Inr (xs, lg)
             | EnumType E \<Rightarrow> enum_items E xs lg = Inr (xs, lg)
             | _ \<Rightarrow> True)"
        using pt Some TupleType ok xs it
        by (auto simp: field_value_ok_def from_dict_items_objects enum_items_members
            split: pytype.splits)
      with pt Some TupleType nn xs it show ?thesis
        by (cases it) (simp_all add: v s iterate_def)
    qed
  qed
  then show ?thesis by (simp add: v_def)
qed

lemma Base__from_dict_unchanged:
  assumes "\<forall>q \<in> set qs. q \<in> set (properties cls) \<and>
             (lookup d q = PNone \<or> field_value_ok \<Gamma> cls q (lookup d q))"
  shows "Base__from_dict \<Gamma> cls qs d (PObj c A None) lg =
     Inr (PObj c (foldl (\<lambda>A q. if lookup d q \<noteq> PNone then AList.update q (lookup d q) A else A) A qs)
            None, lg)"
  using assms
proof (induction qs arbitrary: A)
  case Nil
  show ?case by simp
next
  case (Cons q qs)
  show ?case
  proof (cases "lookup d q = PNone")
    case True
    with Cons show ?thesis by (simp add: Base__from_dict_skip del: Base__from_dict.simps)
  next
    case False
    with Cons.prems have "field_value_ok \<Gamma> cls q (lookup d q)" "q \<in> set (properties cls)"
      by auto
    with False Cons show ?thesis
      by (simp add: Base__from_dict_set del: Base__from_dict.simps)
  qed
qed

lemma map_of_foldl_lookup:
  "map_of (foldl (\<lambda>A q. if lookup d q \<noteq> PNone then AList.update q (lookup d q) A else A) A qs) p =
     (if p \<in> set qs \<and> lookup d p \<noteq> PNone then Some (lookup d p) else map_of A p)"
  by (induction qs arbitrary: A) (auto simp: update_conv')

lemma normalise_kwargs_canonical:
  "\<forall>k \<in> set (map fst items). canonical_name k \<Longrightarrow>
   normalise_kwargs kwargs items acc = Inr (foldl (\<lambda>d (k, v). AList.update k v d) acc items)"
  by (induction items arbitrary: acc) (auto simp: canonical_name_def Let_def)

lemma BaseMeta_call_canonical:
  assumes "\<forall>k \<in> set (map fst kwargs). canonical_name k" and "distinct (map fst kwargs)"
  shows "BaseMeta_call cls kwargs = init cls kwargs"
  using normalise_kwargs_canonical [OF assms(1), of kwargs "[]"]
    foldl_update_distinct [of "[]" kwargs] assms(2)
  by (simp add: BaseMeta_call_def)

lemma required_loop_one:
  assumes "required_ok \<Gamma> cls a (dict_get d a PNone)"
  shows "required_loop \<Gamma> cls (a # args) d required lg =
     required_loop \<Gamma> cls args (AList.delete a d) (AList.update a (dict_get d a PNone) required) lg"
proof -
  from assms obtain pt where pt: "prop_type \<Gamma> cls (prop_name_of a) = Inr pt"
    by (auto simp: required_ok_def split: sum.splits)
  show ?thesis
  proof (cases pt)
    case None
    with pt show ?thesis by (simp add: dict_pop_default_eq)
  next
    case (Some t)
    show ?thesis
    proof (cases t)
      case (EnumType E)
      with pt Some assms have "get_enum_value E (dict_get d a PNone) = Inr (dict_get d a PNone, [])"
        by (auto simp: required_ok_def get_enum_value_member get_enum_value_None)
      with pt Some EnumType show ?thesis by (simp add: dict_pop_default_eq)
    next
      case (BaseType c)
      with pt Some assms show ?thesis
        by (auto simp: required_ok_def dict_pop_default_eq split: pyval.splits)
    qed (use pt Some in \<open>simp_all add: dict_pop_default_eq\<close>)
  qed
qed

lemma dict_get_delete: "a' \<noteq> a \<Longrightarrow> dict_get (AList.delete a d) a' x = dict_get d a' x"
  by (simp add: dict_get_def)

lemma required_loop_unchanged:
  assumes "distinct args"
    and "\<forall>a \<in> set args. required_ok \<Gamma> cls a (dict_get d a PNone)"
  shows "\<exists>required'. required_loop \<Gamma> cls args d required lg =
       Inr (required', filter (\<lambda>(k, v). k \<notin> set args) d, lg) \<and>
     (\<forall>a \<in> set args. map_of required' a = Some (dict_get d a PNone)) \<and>
     (\<forall>k. k \<notin> set args \<longrightarrow> map_of required' k = map_of required k) \<and>
     fst ` set required' = fst ` set required \<union> set args \<and>
     (distinct (map fst required) \<longrightarrow> distinct (map fst required'))"
  using assms
proof (induction args arbitrary: d required)
  case Nil
  then show ?case by simp
next
  case (Cons a args)
  let ?v = "dict_get d a PNone"
  let ?d1 = "AList.delete a d"
  let ?r1 = "AList.update a ?v required"
  from Cons.prems have ok: "required_ok \<Gamma> cls a ?v" and d: "distinct args" and na: "a \<notin> set args"
    by simp_all
  have one: "required_loop \<Gamma> cls (a # args) d required lg = required_loop \<Gamma> cls args ?d1 ?r1 lg"
    using ok by (rule required_loop_one)
  have g: "dict_get ?d1 a' PNone = dict_get d a' PNone" if "a' \<in> set args" for a'
  proof -
    from that na have "a' \<noteq> a" by blast
    then show ?thesis by (rule dict_get_delete)
  qed
  from Cons.prems(2) g have oks: "\<forall>a' \<in> set args. required_ok \<Gamma> cls a' (dict_get ?d1 a' PNone)"
    by simp
  from Cons.IH [OF d oks, of ?r1] obtain required' where
    r: "required_loop \<Gamma> cls args ?d1 ?r1 lg = Inr (required', filter (\<lambda>(k, v). k \<notin> set args) ?d1, lg)"
    and m: "\<forall>a' \<in> set args. map_of required' a' = Some (dict_get ?d1 a' PNone)"
    and f: "\<forall>k. k \<notin> set args \<longrightarrow> map_of required' k = map_of ?r1 k"
    and k: "fst ` set required' = fst ` set ?r1 \<union> set args"
    and di: "distinct (map fst ?r1) \<longrightarrow> distinct (map fst required')"
    by (elim exE conjE)
  have fl: "filter (\<lambda>(k, v). k \<notin> set args) ?d1 = filter (\<lambda>(k, v). k \<notin> set (a # args)) d"
    unfolding AList.delete_eq by (auto intro: filter_cong)
  have 1: "required_loop \<Gamma> cls (a # args) d required lg =
      Inr (required', filter (\<lambda>(k, v). k \<notin> set (a # args)) d, lg)"
    using one r fl by simp
  have 2: "\<forall>a' \<in> set (a # args). map_of required' a' = Some (dict_get d a' PNone)"
    using m g f na by (auto simp: update_conv')
  have 3: "\<forall>k. k \<notin> set (a # args) \<longrightarrow> map_of required' k = map_of required k"
    using f by (simp add: update_conv')
  have 4: "fst ` set required' = fst ` set required \<union> set (a # args)"
    using k by (auto simp: dom_update)
  have 5: "distinct (map fst required) \<longrightarrow> distinct (map fst required')"
    using di by (simp add: distinct_update)
  show ?case
    by (rule exI [of _ required']) (intro conjI 1 2 3 4 5)
qed

lemma init_required:
  assumes "fst ` set kwargs = set (required_args cls)"
  shows "init cls kwargs =
     Inr (PObj (class_name cls) (map (\<lambda>prop. (prop, init_value cls kwargs prop)) (properties cls)) None)"
proof -
  have sub: "set (required_args cls) \<subseteq> set (map fst (init_params cls))"
    by (auto simp: required_args_def)
  have 1: "list_all (\<lambda>(k, v). k \<in> set (map fst (init_params cls))) kwargs"
  proof -
    have "k \<in> set (map fst (init_params cls))" if "(k, v) \<in> set kwargs" for k v
    proof -
      from that have "k \<in> fst ` set kwargs" by force
      with assms sub show ?thesis by auto
    qed
    then show ?thesis unfolding list_all_iff by blast
  qed
  have 2: "list_all (\<lambda>(a, d). d \<noteq> None \<or> a \<in> set (map fst kwargs)) (init_params cls)"
  proof -
    have "d \<noteq> None \<or> a \<in> set (map fst kwargs)" if "(a, d) \<in> set (init_params cls)" for a d
    proof (cases d)
      case None
      with that have "(a, d) \<in> set (filter (\<lambda>(k, d). d = None) (init_params cls))" by simp
      then have "fst (a, d) \<in> set (required_args cls)"
        unfolding required_args_def set_map by (rule imageI)
      with assms show ?thesis by simp
    qed simp
    then show ?thesis unfolding list_all_iff by blast
  qed
  from 1 2 show ?thesis by (simp add: init_def)
qed

lemma find_prop_name:
  assumes "distinct (map (\<lambda>(a, d). prop_name_of a) params)" and "(a, d) \<in> set params"
  shows "find (\<lambda>(a', d'). prop_name_of a' = prop_name_of a) params = Some (a, d)"
  using assms
proof (induction params)
  case (Cons x params)
  obtain a' d' where x: "x = (a', d')" by (cases x)
  show ?case
  proof (cases "(a, d) = x")
    case True
    with x show ?thesis by simp
  next
    case False
    with Cons.prems have mem: "(a, d) \<in> set params" by simp
    then have "prop_name_of a \<in> (\<lambda>(a, d). prop_name_of a) ` set params" by force
    with Cons.prems(1) x have "prop_name_of a' \<noteq> prop_name_of a" by auto
    with Cons.IH mem Cons.prems(1) x show ?thesis by simp
  qed
qed simp

lemma init_value_required:
  assumes "distinct (map (\<lambda>(a, d). prop_name_of a) (init_params cls))"
    and "a \<in> set (required_args cls)" and "map_of kwargs a = Some v"
  shows "init_value cls kwargs (prop_name_of a) = v"
proof -
  from assms(2) have "(a, None) \<in> set (init_params cls)" by (auto simp: required_args_def)
  from find_prop_name [OF assms(1) this] assms(3) show ?thesis by (simp add: init_value_def)
qed

lemma map_of_wire:
  "distinct (map w ps) \<Longrightarrow> p \<in> set ps \<Longrightarrow> map_of (map (\<lambda>p. (w p, g p)) ps) (w p) = Some (g p)"
  by (induction ps) (auto simp: image_iff)

lemma map_of_wire_Some:
  assumes "map_of (map (\<lambda>p. (w p, g p)) ps) k = Some v"
  shows "\<exists>p \<in> set ps. k = w p \<and> v = g p"
proof -
  from map_of_SomeD [OF assms] show ?thesis by auto
qed

lemma map_of_filter_keys:
  "map_of (filter (\<lambda>(k, v). k \<notin> S) d) k = (if k \<in> S then None else map_of d k)"
  by (induction d) auto

lemma distinct_map_comp:
  "distinct (map (\<lambda>x. f (g x)) xs) \<Longrightarrow> distinct (map g xs)"
  by (induction xs) auto

lemma distinct_required_args:
  assumes "distinct (map (\<lambda>(a, d). prop_name_of a) (init_params cls))"
  shows "distinct (required_args cls)"
proof -
  have eq: "(\<lambda>(a, d). prop_name_of a) = (\<lambda>x. prop_name_of (fst x))"
    by (simp add: fun_eq_iff split: prod.splits)
  from assms have "distinct (map (\<lambda>x. prop_name_of (fst x)) (init_params cls))"
    unfolding eq .
  then have "distinct (map fst (init_params cls))" by (rule distinct_map_comp)
  then show ?thesis unfolding required_args_def by (rule distinct_map_filter)
qed

lemma field_value_ok_required_ok:
  "field_value_ok \<Gamma> cls (prop_name_of a) v \<Longrightarrow> required_ok \<Gamma> cls a v"
  by (auto simp: field_value_ok_def required_ok_def isinstance_Base_def
      split: sum.splits option.splits pytype.splits pyval.splits)

lemma field_value_ok_required_ok_None:
  "field_value_ok \<Gamma> cls (prop_name_of a) v \<Longrightarrow> required_ok \<Gamma> cls a PNone"
  by (auto simp: field_value_ok_def required_ok_def
      split: sum.splits option.splits pytype.splits)

lemma wire_key_cases: "wire_key cc q = q \<or> wire_key cc q = camelize q"
  by (simp add: wire_key_def)

lemma wire_dict_key:
  assumes ko: "keys_ok cls cc" and q: "q \<in> set (properties cls)"
    and k: "k = q \<or> k = camelize q"
    and m: "map_of (map (\<lambda>p. (wire_key cc p, g p)) (properties cls)) k = Some v"
  shows "k = wire_key cc q \<and> v = g q"
proof -
  from map_of_wire_Some [OF m] obtain p where
    p: "p \<in> set (properties cls)" "k = wire_key cc p" "v = g p" by blast
  from ko have inj: "inj_on (wire_key cc) (set (properties cls))"
    by (simp add: keys_ok_def distinct_map)
  have cam: "p = q"
    if "p \<in> set (properties cls)" "q \<in> set (properties cls)" "camelize p = q" for p q
    using ko that by (auto simp: keys_ok_def)
  have "p = q"
  proof (cases cc)
    case True
    then have kp: "k = camelize p" using p by (simp add: wire_key_def)
    from k show ?thesis
    proof
      assume "k = q"
      with kp cam [OF p(1) q] show ?thesis by simp
    next
      assume "k = camelize q"
      with kp have "wire_key cc p = wire_key cc q" using True by (simp add: wire_key_def)
      with inj p(1) q show ?thesis by (simp add: inj_on_eq_iff)
    qed
  next
    case False
    then have kp: "k = p" using p by (simp add: wire_key_def)
    from k show ?thesis
    proof
      assume "k = q"
      with kp show ?thesis by simp
    next
      assume "k = camelize q"
      with kp cam [OF q p(1)] show ?thesis by simp
    qed
  qed
  with p show ?thesis by simp
qed

lemma lookup_unpopped:
  assumes ko: "keys_ok cls cc" and q: "q \<in> set (properties cls)" and n: "wire_key cc q \<notin> S"
  shows "lookup (filter (\<lambda>(k, v). k \<notin> S) (map (\<lambda>p. (wire_key cc p, g p)) (properties cls))) q = g q"
proof -
  let ?D = "map (\<lambda>p. (wire_key cc p, g p)) (properties cls)"
  let ?D' = "filter (\<lambda>(k, v). k \<notin> S) ?D"
  have m: "map_of ?D' k = (if k \<in> S then None else map_of ?D k)" for k
    by (rule map_of_filter_keys)
  from ko have inj: "distinct (map (wire_key cc) (properties cls))" by (simp add: keys_ok_def)
  have w: "map_of ?D' (wire_key cc q) = Some (g q)"
    using n map_of_wire [OF inj q, of g] by (simp add: m)
  have some: "v = g q" if "k = q \<or> k = camelize q" "map_of ?D' k = Some v" for k v
  proof -
    from that(2) have "map_of ?D k = Some v" by (simp add: m split: if_splits)
    from wire_dict_key [OF ko q that(1) this] show ?thesis by simp
  qed
  show ?thesis
  proof (cases "map_of ?D' q")
    case (Some v)
    with some [of q v] show ?thesis by (simp add: lookup_def dict_get_def)
  next
    case None
    with w wire_key_cases [of cc q] have "map_of ?D' (camelize q) = Some (g q)" by auto
    with None show ?thesis by (simp add: lookup_def dict_get_def)
  qed
qed

lemma lookup_popped:
  assumes ko: "keys_ok cls cc" and q: "q \<in> set (properties cls)" and n: "wire_key cc q \<in> S"
  shows "lookup (filter (\<lambda>(k, v). k \<notin> S) (map (\<lambda>p. (wire_key cc p, g p)) (properties cls))) q = PNone"
proof -
  let ?D = "map (\<lambda>p. (wire_key cc p, g p)) (properties cls)"
  let ?D' = "filter (\<lambda>(k, v). k \<notin> S) ?D"
  have m: "map_of ?D' k = (if k \<in> S then None else map_of ?D k)" for k
    by (rule map_of_filter_keys)
  have none: "map_of ?D' k = None" if k: "k = q \<or> k = camelize q" for k
  proof (cases "map_of ?D' k")
    case (Some v)
    then have *: "k \<notin> S" "map_of ?D k = Some v" by (simp_all add: m split: if_splits)
    from wire_dict_key [OF ko q k *(2)] have "k = wire_key cc q" by simp
    with *(1) n show ?thesis by simp
  qed simp
  from none [of q] none [of "camelize q"] show ?thesis by (simp add: lookup_def dict_get_def)
qed

text \<open>
  C1, as amended. Let \<open>cls\<close> be a declared type that is no instrument and is well
  formed, let the keys that \<^verbatim>\<open>as_dict\<close> writes not collide, and let \<open>o\<close> be a
  fully populated instance: every property has a value, not \<^verbatim>\<open>None\<close>, that
  \<^verbatim>\<open>__from_dict\<close> stores as it finds it, so that no property is declared as a date or a
  date-time. Then \<^verbatim>\<open>as_dict\<close> returns a dictionary, \<^verbatim>\<open>from_dict\<close> of that
  dictionary returns an instance of the same class and logs nothing, and every property
  of the instance has the value it has in \<open>o\<close>; this holds for the camel-case keys and
  for the canonical ones.
\<close>

theorem round_trip:
  assumes ni: "\<not> instrument cls" and wf: "wf_class cls" and ko: "keys_ok cls as_camel_case"
    and full: "\<forall>p \<in> set (properties cls).
                 \<exists>v. map_of attrs p = Some v \<and> v \<noteq> PNone \<and> field_value_ok \<Gamma> cls p v"
  shows "\<exists>d attrs'. as_dict cls (PObj (class_name cls) attrs h) as_camel_case = Inr d \<and>
           from_dict \<Gamma> cls (PDict d) lg = Inr (PObj (class_name cls) attrs' None, lg) \<and>
           (\<forall>p \<in> set (properties cls). map_of attrs' p = map_of attrs p)"
proof -
  let ?props = "properties cls"
  let ?args = "required_args cls"
  let ?w = "wire_key as_camel_case"
  let ?g = "\<lambda>p. dict_get attrs p PNone"
  let ?d = "map (\<lambda>p. (?w p, ?g p)) ?props"
  let ?d' = "filter (\<lambda>(k, v). k \<notin> set ?args) ?d"
  from ko have inj: "distinct (map ?w ?props)" by (simp add: keys_ok_def)
  from ko have req: "prop_name_of a = p" if "a \<in> set ?args" "p \<in> set ?props" "?w p = a" for a p
    using that by (simp add: keys_ok_def)
  from wf have dp: "distinct (map (\<lambda>(a, d). prop_name_of a) (init_params cls))"
    and dprops: "distinct ?props"
    by (simp_all add: wf_class_def)
  from wf have can: "canonical_name a" and pin: "prop_name_of a \<in> set ?props"
    if "a \<in> set ?args" for a
    using that by (simp_all add: wf_class_def)
  have val: "map_of attrs p = Some (?g p)" "?g p \<noteq> PNone" "field_value_ok \<Gamma> cls p (?g p)"
    if "p \<in> set ?props" for p
    using full that by (auto simp: dict_get_def)
  have ad: "as_dict cls (PObj (class_name cls) attrs h) as_camel_case = Inr ?d"
  proof (rule as_dict_full)
    show "\<forall>p \<in> set ?props. \<exists>v. map_of attrs p = Some v \<and> v \<noteq> PNone"
      using full by blast
    show "distinct (map ?w ?props)" by (rule inj)
  qed
  have da: "distinct ?args" using dp by (rule distinct_required_args)
  have rok: "required_ok \<Gamma> cls a (dict_get ?d a PNone)" if a: "a \<in> set ?args" for a
  proof (cases "map_of ?d a")
    case None
    then have "dict_get ?d a PNone = PNone" by (simp add: dict_get_def)
    with field_value_ok_required_ok_None [OF val(3) [OF pin [OF a]]] show ?thesis by simp
  next
    case (Some v)
    from map_of_wire_Some [OF Some] obtain p where
      p: "p \<in> set ?props" "a = ?w p" "v = ?g p" by blast
    from req [OF a p(1)] p(2) have "prop_name_of a = p" by simp
    with val(3) [OF p(1)] p(3) have "field_value_ok \<Gamma> cls (prop_name_of a) v" by simp
    from field_value_ok_required_ok [OF this] Some show ?thesis by (simp add: dict_get_def)
  qed
  have "\<forall>a \<in> set ?args. required_ok \<Gamma> cls a (dict_get ?d a PNone)" using rok by blast
  from required_loop_unchanged [OF da this, of "[]" lg] obtain required' where
    rl: "required_loop \<Gamma> cls ?args ?d [] lg = Inr (required', ?d', lg)"
    and rm: "\<forall>a \<in> set ?args. map_of required' a = Some (dict_get ?d a PNone)"
    and rk: "fst ` set required' = fst ` set ([] :: pydict) \<union> set ?args"
    and rd: "distinct (map fst ([] :: pydict)) \<longrightarrow> distinct (map fst required')"
    by (elim exE conjE)
  let ?I = "map (\<lambda>prop. (prop, init_value cls required' prop)) ?props"
  have bm: "BaseMeta_call cls required' = init cls required'"
  proof (rule BaseMeta_call_canonical)
    show "\<forall>k \<in> set (map fst required'). canonical_name k" using rk can by simp
    show "distinct (map fst required')" using rd by simp
  qed
  have ini: "init cls required' = Inr (PObj (class_name cls) ?I None)"
    using rk by (intro init_required) simp
  have lk1: "lookup ?d' q = ?g q" if "q \<in> set ?props" "?w q \<notin> set ?args" for q
    using ko that by (rule lookup_unpopped)
  have lk2: "lookup ?d' q = PNone" if "q \<in> set ?props" "?w q \<in> set ?args" for q
    using ko that by (rule lookup_popped)
  have pl: "\<forall>q \<in> set ?props. q \<in> set ?props \<and>
              (lookup ?d' q = PNone \<or> field_value_ok \<Gamma> cls q (lookup ?d' q))"
  proof
    fix q
    assume q: "q \<in> set ?props"
    show "q \<in> set ?props \<and> (lookup ?d' q = PNone \<or> field_value_ok \<Gamma> cls q (lookup ?d' q))"
    proof (cases "?w q \<in> set ?args")
      case True
      with lk2 [OF q] q show ?thesis by simp
    next
      case False
      with lk1 [OF q] val(3) [OF q] q show ?thesis by simp
    qed
  qed
  let ?R = "foldl (\<lambda>A q. if lookup ?d' q \<noteq> PNone then AList.update q (lookup ?d' q) A else A)
              ?I ?props"
  have bf: "Base__from_dict \<Gamma> cls ?props ?d' (PObj (class_name cls) ?I None) lg =
              Inr (PObj (class_name cls) ?R None, lg)"
    using pl by (rule Base__from_dict_unchanged)
  have "from_dict \<Gamma> cls (PDict ?d) lg = Base_from_dict \<Gamma> cls ?args ?d [] lg"
    using ni by simp
  also have "\<dots> = Base_from_dict \<Gamma> cls [] ?d' required' lg"
    by (subst Base_from_dict_required_loop) (simp add: rl)
  also have "\<dots> = Inr (PObj (class_name cls) ?R None, lg)"
    by (simp add: bm ini bf)
  finally have fd: "from_dict \<Gamma> cls (PDict ?d) lg = Inr (PObj (class_name cls) ?R None, lg)" .
  have eq: "map_of ?R p = map_of attrs p" if p: "p \<in> set ?props" for p
  proof (cases "?w p \<in> set ?args")
    case False
    from lk1 [OF p False] val(1,2) [OF p] p show ?thesis
      by (simp add: map_of_foldl_lookup)
  next
    case True
    from req [OF True p] have pn: "prop_name_of (?w p) = p" by simp
    from rm True have "map_of required' (?w p) = Some (dict_get ?d (?w p) PNone)" by blast
    also have "dict_get ?d (?w p) PNone = ?g p"
      using map_of_wire [OF inj p, of ?g] by (simp add: dict_get_def)
    finally have "init_value cls required' (prop_name_of (?w p)) = ?g p"
      by (rule init_value_required [OF dp True])
    with pn have iv: "init_value cls required' p = ?g p" by simp
    have "distinct (map (\<lambda>p. p) ?props)" using dprops by simp
    from map_of_wire [OF this p, of "init_value cls required'"] iv
    have "map_of ?I p = Some (?g p)" by simp
    with lk2 [OF p True] val(1) [OF p] show ?thesis
      by (simp add: map_of_foldl_lookup)
  qed
  from ad fd eq show ?thesis by blast
qed

lemma camelize_ex_Position:
  "camelize ''asset_class'' = ''assetClass''" "camelize ''asset_id'' = ''assetId''"
  "camelize ''quantity'' = ''quantity''"
  by (simp_all add: naming_defs)

lemma canonical_name_asset_id: "canonical_name ''asset_id''"
  by (simp add: canonical_name_def naming_defs)

lemma prop_name_of_asset_id: "prop_name_of ''asset_id'' = ''asset_id''"
  by (simp add: naming_defs)

lemma required_args_ex_Position: "required_args ex_Position = [''asset_id'']"
  by (simp add: required_args_def ex_Position_def)

lemma wf_class_ex_Position: "wf_class ex_Position"
  unfolding wf_class_def required_args_ex_Position
  by (simp add: canonical_name_asset_id prop_name_of_asset_id)
     (simp add: ex_Position_def naming_defs)

lemma keys_ok_ex_Position: "keys_ok ex_Position as_camel_case"
  unfolding keys_ok_def required_args_ex_Position
  by (cases as_camel_case)
     (simp_all add: ex_Position_def wire_key_def camelize_ex_Position prop_name_of_asset_id)

lemma field_value_ok_ex_Position:
  "list_all (\<lambda>p. \<exists>v. map_of ex_position_attrs p = Some v \<and> v \<noteq> PNone \<and>
                    field_value_ok ex_env ex_Position p v) (properties ex_Position)"
  by (simp add: ex_Position_def ex_position_attrs_def field_value_ok_def prop_type_def resolve_def
      is_base_or_enum_def ex_env_simps ex_base_def isinstance_enum_def ex_AssetClass_def)

text \<open>
  The round trip of a position with an enum field and a required parameter, with camel-case
  keys and with canonical keys.
\<close>

theorem round_trip_witness:
  "\<not> instrument ex_Position \<and> wf_class ex_Position \<and>
   keys_ok ex_Position True \<and> keys_ok ex_Position False \<and>
   list_all (\<lambda>p. \<exists>v. map_of ex_position_attrs p = Some v \<and> v \<noteq> PNone \<and>
                   field_value_ok ex_env ex_Position p v) (properties ex_Position) \<and>
   (\<exists>d attrs'. as_dict ex_Position (PObj ''Position'' ex_position_attrs None) True = Inr d \<and>
      from_dict ex_env ex_Position (PDict d) [] = Inr (PObj ''Position'' attrs' None, []) \<and>
      list_all (\<lambda>p. map_of attrs' p = map_of ex_position_attrs p) (properties ex_Position)) \<and>
   (\<exists>d attrs'. as_dict ex_Position (PObj ''Position'' ex_position_attrs None) False = Inr d \<and>
      from_dict ex_env ex_Position (PDict d) [] = Inr (PObj ''Position'' attrs' None, []) \<and>
      list_all (\<lambda>p. map_of attrs' p = map_of ex_position_attrs p) (properties ex_Position))"
proof -
  have ni: "\<not> instrument ex_Position" by (simp add: ex_Position_def)
  have cn: "class_name ex_Position = ''Position''" by (simp add: ex_Position_def)
  have full: "\<forall>p \<in> set (properties ex_Position).
      \<exists>v. map_of ex_position_attrs p = Some v \<and> v \<noteq> PNone \<and>
          field_value_ok ex_env ex_Position p v"
    using field_value_ok_ex_Position unfolding list_all_iff .
  show ?thesis
    using
      round_trip [where as_camel_case = True and h = None and lg = "[]",
        OF ni wf_class_ex_Position keys_ok_ex_Position full]
      round_trip [where as_camel_case = False and h = None and lg = "[]",
        OF ni wf_class_ex_Position keys_ok_ex_Position full]
    unfolding cn list_all_iff
    by (intro conjI ni wf_class_ex_Position keys_ok_ex_Position full)
qed

text \<open>
  C1 as stated fails for a date-time field: \<^verbatim>\<open>as_dict\<close> returns the
  \<^verbatim>\<open>datetime\<close> object of a fully populated event, and \<^verbatim>\<open>__from_dict\<close> hands it to
  \<^verbatim>\<open>re.search\<close>, which raises \<^verbatim>\<open>TypeError\<close>.
\<close>

theorem round_trip_datetime_counterexample:
  "\<not> instrument ex_Event \<and> wf_class ex_Event \<and> keys_ok ex_Event False \<and>
   as_dict ex_Event (PObj ''Event'' [(''time'', ex_event_time)] None) False =
     Inr [(''time'', ex_event_time)] \<and>
   from_dict ex_env ex_Event (PDict [(''time'', ex_event_time)]) [] =
     Inl (TypeError ''expected string or bytes-like object'')"
proof -
  have i: "\<not> instrument ex_Event" by (simp add: ex_Event_def)
  have r: "required_args ex_Event = []" by (simp add: required_args_def ex_Event_def)
  have w: "wf_class ex_Event" unfolding wf_class_def r by (simp add: ex_Event_def naming_defs)
  have k: "keys_ok ex_Event False" unfolding keys_ok_def r
    by (simp add: ex_Event_def wire_key_def naming_defs)
  have a: "as_dict ex_Event (PObj ''Event'' [(''time'', ex_event_time)] None) False =
     Inr [(''time'', ex_event_time)]"
    by (simp add: as_dict_def ex_Event_def object_getattribute_def dict_of_def ex_event_time_def
        dict_get_def)
  have t: "prop_type ex_env ex_Event ''time'' = Inr (Some DatetimeType)"
    by (simp add: prop_type_def ex_Event_def resolve_def)
  have p: "properties ex_Event = [''time'']" by (simp add: ex_Event_def)
  have b: "BaseMeta_call ex_Event [] = Inr (PObj ''Event'' [(''time'', PNone)] None)"
    by (simp add: BaseMeta_call_def init_def init_value_def ex_Event_def naming_defs)
  have c: "coerce_datetime ex_env ex_event_time =
      Inl (TypeError ''expected string or bytes-like object'')"
    by (simp add: coerce_datetime_def isinstance_int_def ex_event_time_def)
  have n: "ex_event_time \<noteq> PNone" by (simp add: ex_event_time_def)
  have f: "from_dict ex_env ex_Event (PDict [(''time'', ex_event_time)]) [] =
     Inl (TypeError ''expected string or bytes-like object'')"
    by (simp add: i r b p t c n dict_get_def)
  from i w k a f show ?thesis by simp
qed

subsection \<open>Both spellings of a field\<close>

text \<open>
  Construction with keyword arguments: \<^verbatim>\<open>BaseMeta.__call__\<close> raises
  \<^verbatim>\<open>ValueError\<close> when a camelCase spelling comes together with the snake_case
  spelling it normalises to, whether their values differ or not.
\<close>

lemma normalise_kwargs_both_specified:
  assumes "(arg, value) \<in> set items"
    and "\<not> isupper (normalise_arg arg)"
    and "underscore (normalise_arg arg) \<noteq> normalise_arg arg"
    and "underscore (normalise_arg arg) \<in> set (map fst kwargs)"
  shows "\<exists>msg. normalise_kwargs kwargs items acc = Inl (ValueError msg)"
  using assms by (induction items arbitrary: acc) (force simp: Let_def)+

lemma BaseMeta_call_both_specified:
  assumes "(arg, value) \<in> set kwargs"
    and "\<not> isupper (normalise_arg arg)"
    and "underscore (normalise_arg arg) \<noteq> normalise_arg arg"
    and "underscore (normalise_arg arg) \<in> set (map fst kwargs)"
  shows "\<exists>msg. BaseMeta_call cls kwargs = Inl (ValueError msg)"
  using normalise_kwargs_both_specified [OF assms, of "[]"]
  by (auto simp: BaseMeta_call_def)

lemma BaseMeta_call_both_specified_ex_Swap:
  "\<exists>msg. BaseMeta_call ex_Swap
     [(''notional_currency'', PStr ''USD''), (''fixedRate'', PFloat (1 / 100)),
      (''fixed_rate'', PFloat (1 / 100))] = Inl (ValueError msg)"
  using BaseMeta_call_both_specified [of "''fixedRate''" "PFloat (1 / 100)"
      "[(''notional_currency'', PStr ''USD''), (''fixedRate'', PFloat (1 / 100)),
        (''fixed_rate'', PFloat (1 / 100))]" ex_Swap]
  by (simp add: normalise_arg_fixedRate isupper_fixedRate underscore_fixedRate)

lemma BaseMeta_call_ex_Position:
  "BaseMeta_call ex_Position [(''asset_id'', v)] =
     Inr (PObj ''Position''
       [(''asset_class'', PNone), (''asset_id'', v), (''quantity'', PNone)] None)"
proof -
  have n: "normalise_kwargs kw [(''asset_id'', v)] [] = Inr [(''asset_id'', v)]" for kw
    by (simp add: naming_defs Let_def)
  show ?thesis
    by (simp add: BaseMeta_call_def n init_def init_value_def ex_Position_def prop_name_of_def
        iskeyword_def kwlist_def dict_get_def del: normalise_kwargs.simps)
qed

lemma prop_type_ex_Position:
  "prop_type ex_env ex_Position ''asset_class'' = Inr (Some (EnumType ex_AssetClass))"
  "prop_type ex_env ex_Position ''asset_id'' = Inr (Some OtherType)"
  "prop_type ex_env ex_Position ''quantity'' = Inr None"
  by (simp_all add: prop_type_def ex_Position_def resolve_def is_base_or_enum_def ex_env_simps
      ex_base_def)

text \<open>
  C7, on the code. \<^verbatim>\<open>from_dict\<close> of a dictionary that gives one field under its
  canonical and under its wire spelling, with different values, raises nothing and returns
  an object. For \<^verbatim>\<open>prime_id\<close> of a security, an optional field, \<^verbatim>\<open>__from_dict\<close>
  reads the canonical key and the value of \<^verbatim>\<open>primeId\<close> is dropped. For
  \<^verbatim>\<open>asset_id\<close> of a position, a required parameter, \<^verbatim>\<open>_from_dict\<close> pops the
  canonical key for the constructor and \<^verbatim>\<open>__from_dict\<close> then overwrites the field
  with the value of \<^verbatim>\<open>assetId\<close>. The class called with the same two keywords
  raises \<^verbatim>\<open>ValueError\<close>.
\<close>

theorem from_dict_both_spellings:
  "from_dict ex_env ex_Security
     (PDict [(''prime_id'', PStr ''A''), (''primeId'', PStr ''B'')]) [] =
     Inr (PObj ''Security''
           [(''bbid'', PNone), (''prime_id'', PStr ''A''), (''ticker'', PNone)] None, []) \<and>
   from_dict ex_env ex_Position
     (PDict [(''asset_id'', PStr ''A''), (''assetId'', PStr ''B'')]) [] =
     Inr (PObj ''Position''
           [(''asset_class'', PNone), (''asset_id'', PStr ''B''), (''quantity'', PNone)] None, []) \<and>
   (\<exists>msg. BaseMeta_call ex_Security [(''prime_id'', PStr ''A''), (''primeId'', PStr ''B'')] =
      Inl (ValueError msg))"
proof -
  have p: "properties ex_Security = [''bbid'', ''prime_id'', ''ticker'']"
    by (simp add: ex_Security_def)
  have i: "\<not> instrument ex_Security"
    by (simp add: ex_Security_def)
  have 1: "from_dict ex_env ex_Security
     (PDict [(''prime_id'', PStr ''A''), (''primeId'', PStr ''B'')]) [] =
     Inr (PObj ''Security''
           [(''bbid'', PNone), (''prime_id'', PStr ''A''), (''ticker'', PNone)] None, [])"
    by (simp add: i required_args_ex_Security BaseMeta_call_ex_Security p dict_get_def
        camelize_ex_Security prop_type_ex_Security
        Base_setattr_def object_setattr_def property_changed_def)
  have q: "properties ex_Position = [''asset_class'', ''asset_id'', ''quantity'']"
    by (simp add: ex_Position_def)
  have j: "\<not> instrument ex_Position"
    by (simp add: ex_Position_def)
  have l: "required_loop ex_env ex_Position [''asset_id'']
      [(''asset_id'', PStr ''A''), (''assetId'', PStr ''B'')] [] [] =
      Inr ([(''asset_id'', PStr ''A'')], [(''assetId'', PStr ''B'')], [])"
    by (simp add: prop_name_of_asset_id prop_type_ex_Position dict_pop_default_eq dict_get_def)
  have b: "Base__from_dict ex_env ex_Position (properties ex_Position) [(''assetId'', PStr ''B'')]
      (PObj ''Position''
        [(''asset_class'', PNone), (''asset_id'', PStr ''A''), (''quantity'', PNone)] None) [] =
     Inr (PObj ''Position''
           [(''asset_class'', PNone), (''asset_id'', PStr ''B''), (''quantity'', PNone)] None, [])"
    by (simp add: q dict_get_def camelize_ex_Position prop_type_ex_Position
        Base_setattr_property)
  have 2: "from_dict ex_env ex_Position
     (PDict [(''asset_id'', PStr ''A''), (''assetId'', PStr ''B'')]) [] =
     Inr (PObj ''Position''
           [(''asset_class'', PNone), (''asset_id'', PStr ''B''), (''quantity'', PNone)] None, [])"
    using b
    by (simp add: j required_args_ex_Position Base_from_dict_required_loop [of _ _ "[''asset_id'']"] l
        BaseMeta_call_ex_Position
        del: Base_from_dict.simps(2) Base__from_dict.simps required_loop.simps)
  have 3: "\<exists>msg. BaseMeta_call ex_Security [(''prime_id'', PStr ''A''), (''primeId'', PStr ''B'')] =
      Inl (ValueError msg)"
    by (simp add: BaseMeta_call_def Let_def naming_defs)
  from 1 2 3 show ?thesis by simp
qed

end
